theory Spec2Isabelle
  imports Complex_Main
begin

section \<open>Conventions of the embedding\<close>

text \<open>
  The development embeds the decision logic of the dubbing pipeline
  (\<^verbatim>\<open>edge_tts_dub.py\<close>, \<^verbatim>\<open>smart_diarize.py\<close>, \<^verbatim>\<open>server/tts/translate.py\<close>,
  \<^verbatim>\<open>server/tts/voice_selector.py\<close>, \<^verbatim>\<open>server/tts/segment_assembler.py\<close>).

  \<^item> Python \<^verbatim>\<open>str\<close> values are modelled as \<open>string\<close>; the texts considered are ASCII, so
    \<^verbatim>\<open>str.lower\<close>, \<^verbatim>\<open>str.strip\<close>, \<^verbatim>\<open>\s\<close> and \<^verbatim>\<open>\d\<close> are modelled on ASCII characters only.
  \<^item> Python \<^verbatim>\<open>float\<close> values (times, durations, pitch) are modelled as \<open>real\<close>: rounding
    error of binary floating point is outside the model.
  \<^item> Python \<^verbatim>\<open>int\<close> is \<open>int\<close>; counters and lengths are \<open>nat\<close>.
  \<^item> External tools and services (ffmpeg, ffprobe, the TTS services, the translation
    service, the file system) are parameters of the model: a function or record that
    tells what each call returns. Theorems quantify over all such environments.
  \<^item> A Python exception that leaves a function is a value \<open>Inl e\<close> of a sum type. The
    functions that wrap a tool (\<^verbatim>\<open>generate_silence\<close>, \<^verbatim>\<open>get_audio_duration\<close>, the ffmpeg
    runs) are modelled by the value they return; that the tool cannot be started at all is
    not considered.
  \<^item> Waiting (\<^verbatim>\<open>sleep\<close>, back-off) and printing to the log are left out.
\<close>

datatype py_error = KeyError string

subsection \<open>String helpers\<close>

text \<open>\<^verbatim>\<open>str.lower()\<close> on ASCII text.\<close>

definition lower_char :: "char \<Rightarrow> char" where
  "lower_char c =
     (case map_of (zip ''ABCDEFGHIJKLMNOPQRSTUVWXYZ'' ''abcdefghijklmnopqrstuvwxyz'') c of
        Some d \<Rightarrow> d
      | None \<Rightarrow> c)"

definition lower :: "string \<Rightarrow> string" where
  "lower s = map lower_char s"

text \<open>
  The ASCII characters for which \<^verbatim>\<open>str.isspace()\<close> holds (and which \<^verbatim>\<open>\s\<close> matches):
  codes 9 to 13, 28 to 31 and 32.
\<close>

definition is_space :: "char \<Rightarrow> bool" where
  "is_space c = (let n = (of_char c :: nat) in (9 \<le> n \<and> n \<le> 13) \<or> (28 \<le> n \<and> n \<le> 32))"

definition lstrip :: "string \<Rightarrow> string" where
  "lstrip s = dropWhile is_space s"

definition rstrip :: "string \<Rightarrow> string" where
  "rstrip s = rev (dropWhile is_space (rev s))"

definition strip :: "string \<Rightarrow> string" where
  "strip s = rstrip (lstrip s)"

definition is_digit :: "char \<Rightarrow> bool" where
  "is_digit c = (c \<in> set ''0123456789'')"

text \<open>\<^verbatim>\<open>s.split(sep)[0]\<close> for a one-character separator: the text before its first occurrence.\<close>

definition split_first :: "char \<Rightarrow> string \<Rightarrow> string" where
  "split_first sep s = takeWhile (\<lambda>c. c \<noteq> sep) s"

fun is_prefix :: "string \<Rightarrow> string \<Rightarrow> bool" where
  "is_prefix [] ys = True"
| "is_prefix (x # xs) [] = False"
| "is_prefix (x # xs) (y # ys) = (x = y \<and> is_prefix xs ys)"

text \<open>\<^verbatim>\<open>k in s\<close> for strings: \<open>k\<close> occurs in \<open>s\<close> as a contiguous substring.\<close>

fun contains :: "string \<Rightarrow> string \<Rightarrow> bool" where
  "contains [] k = (k = [])"
| "contains (c # cs) k = (is_prefix k (c # cs) \<or> contains cs k)"


section \<open>Voice lookup (\<^verbatim>\<open>edge_tts_dub.get_voice\<close>)\<close>

text \<open>
  \<^verbatim>\<open>VOICE_MAP\<close>: language code to a dictionary with the keys \<^verbatim>\<open>"male"\<close> and \<^verbatim>\<open>"female"\<close>.
  Both levels are association lists in the order of the source.
\<close>

definition mf :: "string \<Rightarrow> string \<Rightarrow> (string \<times> string) list" where
  "mf m f = [(''male'', m), (''female'', f)]"

definition VOICE_MAP :: "(string \<times> (string \<times> string) list) list" where
  "VOICE_MAP =
    [(''es'', mf ''es-MX-JorgeNeural'' ''es-MX-DaliaNeural''),
     (''es-MX'', mf ''es-MX-JorgeNeural'' ''es-MX-DaliaNeural''),
     (''es-ES'', mf ''es-ES-AlvaroNeural'' ''es-ES-ElviraNeural''),
     (''es-AR'', mf ''es-AR-TomasNeural'' ''es-AR-ElenaNeural''),
     (''fr'', mf ''fr-FR-HenriNeural'' ''fr-FR-DeniseNeural''),
     (''fr-CA'', mf ''fr-CA-AntoineNeural'' ''fr-CA-SylvieNeural''),
     (''de'', mf ''de-DE-ConradNeural'' ''de-DE-KatjaNeural''),
     (''it'', mf ''it-IT-DiegoNeural'' ''it-IT-ElsaNeural''),
     (''pt'', mf ''pt-BR-AntonioNeural'' ''pt-BR-FranciscaNeural''),
     (''pt-BR'', mf ''pt-BR-AntonioNeural'' ''pt-BR-FranciscaNeural''),
     (''pt-PT'', mf ''pt-PT-DuarteNeural'' ''pt-PT-RaquelNeural''),
     (''ru'', mf ''ru-RU-DmitryNeural'' ''ru-RU-SvetlanaNeural''),
     (''zh'', mf ''zh-CN-YunxiNeural'' ''zh-CN-XiaoxiaoNeural''),
     (''zh-CN'', mf ''zh-CN-YunxiNeural'' ''zh-CN-XiaoxiaoNeural''),
     (''zh-TW'', mf ''zh-TW-YunJheNeural'' ''zh-TW-HsiaoChenNeural''),
     (''ja'', mf ''ja-JP-KeitaNeural'' ''ja-JP-NanamiNeural''),
     (''ko'', mf ''ko-KR-InJoonNeural'' ''ko-KR-SunHiNeural''),
     (''ar'', mf ''ar-SA-HamedNeural'' ''ar-SA-ZariyahNeural''),
     (''hi'', mf ''hi-IN-MadhurNeural'' ''hi-IN-SwaraNeural''),
     (''nl'', mf ''nl-NL-MaartenNeural'' ''nl-NL-FennaNeural''),
     (''pl'', mf ''pl-PL-MarekNeural'' ''pl-PL-ZofiaNeural''),
     (''tr'', mf ''tr-TR-AhmetNeural'' ''tr-TR-EmelNeural''),
     (''sv'', mf ''sv-SE-MattiasNeural'' ''sv-SE-SofieNeural''),
     (''no'', mf ''nb-NO-FinnNeural'' ''nb-NO-PernilleNeural''),
     (''da'', mf ''da-DK-JeppeNeural'' ''da-DK-ChristelNeural''),
     (''fi'', mf ''fi-FI-HarriNeural'' ''fi-FI-SelmaNeural''),
     (''el'', mf ''el-GR-NestorasNeural'' ''el-GR-AthinaNeural''),
     (''cs'', mf ''cs-CZ-AntoninNeural'' ''cs-CZ-VlastaNeural''),
     (''ro'', mf ''ro-RO-EmilNeural'' ''ro-RO-AlinaNeural''),
     (''hu'', mf ''hu-HU-TamasNeural'' ''hu-HU-NoemiNeural''),
     (''th'', mf ''th-TH-NiwatNeural'' ''th-TH-PremwadeeNeural''),
     (''vi'', mf ''vi-VN-NamMinhNeural'' ''vi-VN-HoaiMyNeural''),
     (''id'', mf ''id-ID-ArdiNeural'' ''id-ID-GadisNeural''),
     (''ms'', mf ''ms-MY-OsmanNeural'' ''ms-MY-YasminNeural''),
     (''fil'', mf ''fil-PH-AngeloNeural'' ''fil-PH-BlessicaNeural''),
     (''uk'', mf ''uk-UA-OstapNeural'' ''uk-UA-PolinaNeural''),
     (''he'', mf ''he-IL-AvriNeural'' ''he-IL-HilaNeural''),
     (''bn'', mf ''bn-IN-BashkarNeural'' ''bn-IN-TanishaaNeural''),
     (''ta'', mf ''ta-IN-ValluvarNeural'' ''ta-IN-PallaviNeural''),
     (''te'', mf ''te-IN-MohanNeural'' ''te-IN-ShrutiNeural''),
     (''en'', mf ''en-US-GuyNeural'' ''en-US-JennyNeural''),
     (''en-US'', mf ''en-US-GuyNeural'' ''en-US-JennyNeural''),
     (''en-GB'', mf ''en-GB-RyanNeural'' ''en-GB-SoniaNeural''),
     (''en-AU'', mf ''en-AU-WilliamNeural'' ''en-AU-NatashaNeural''),
     (''en-IN'', mf ''en-IN-PrabhatNeural'' ''en-IN-NeerjaNeural'')]"

text \<open>\<^verbatim>\<open>d[k]\<close>: raises \<^verbatim>\<open>KeyError\<close> when the key is absent.\<close>

definition getitem :: "(string \<times> 'v) list \<Rightarrow> string \<Rightarrow> py_error + 'v" where
  "getitem d k = (case map_of d k of None \<Rightarrow> Inl (KeyError k) | Some v \<Rightarrow> Inr v)"

text \<open>
  \<^verbatim>\<open>d.get(gender, d["female"])\<close>: Python evaluates the default \<^verbatim>\<open>d["female"]\<close> first, so a
  dictionary without that key raises even when \<^verbatim>\<open>gender\<close> is present.
\<close>

definition get_or_female :: "(string \<times> string) list \<Rightarrow> string \<Rightarrow> py_error + string" where
  "get_or_female d gender =
     (case getitem d ''female'' of
        Inl e \<Rightarrow> Inl e
      | Inr dflt \<Rightarrow> Inr (case map_of d gender of Some v \<Rightarrow> v | None \<Rightarrow> dflt))"

definition get_voice :: "string \<Rightarrow> string \<Rightarrow> py_error + string" where
  "get_voice language_code gender =
     (let lang = lower language_code in
      case map_of VOICE_MAP lang of
        Some voices \<Rightarrow> get_or_female voices gender
      | None \<Rightarrow>
          (let base_lang = split_first CHR ''-'' lang in
           case map_of VOICE_MAP base_lang of
             Some voices \<Rightarrow> get_or_female voices gender
           | None \<Rightarrow>
               (case getitem VOICE_MAP ''en'' of
                  Inl e \<Rightarrow> Inl e
                | Inr en \<Rightarrow> getitem en gender)))"

lemmas string_eval =
  lower_def lower_char_def split_first_def getitem_def get_or_female_def mf_def

text \<open>The exact-match and the base-language branch default to the female voice.\<close>

lemma get_voice_exact_unknown_gender:
  "get_voice ''fr'' ''unknown'' = Inr ''fr-FR-DeniseNeural''"
  by (simp add: get_voice_def VOICE_MAP_def string_eval)

lemma get_voice_base_unknown_gender:
  "get_voice ''es-CO'' ''unknown'' = Inr ''es-MX-DaliaNeural''"
  by (simp add: get_voice_def VOICE_MAP_def string_eval)

text \<open>
  What does hold: the lookup returns a voice for every gender string when the language or
  its base language is in the table, and for every language when the gender is
  \<^verbatim>\<open>"male"\<close> or \<^verbatim>\<open>"female"\<close>.
\<close>

lemma VOICE_MAP_entries:
  "list_all (\<lambda>(k, d). \<exists>m f. d = mf m f) VOICE_MAP"
  by (simp add: VOICE_MAP_def) blast

lemma VOICE_MAP_lookup:
  assumes "map_of VOICE_MAP k = Some d"
  shows "\<exists>m f. d = mf m f"
proof -
  from assms have "(k, d) \<in> set VOICE_MAP" by (rule map_of_SomeD)
  with VOICE_MAP_entries show ?thesis by (auto simp: list_all_iff)
qed

lemma get_or_female_total: "\<exists>v. get_or_female (mf m f) gender = Inr v"
  by (simp add: get_or_female_def getitem_def mf_def)

lemma get_voice_matched_total:
  assumes "map_of VOICE_MAP (lower language_code) \<noteq> None \<or>
           map_of VOICE_MAP (split_first CHR ''-'' (lower language_code)) \<noteq> None"
  shows "\<exists>v. get_voice language_code gender = Inr v"
proof (cases "map_of VOICE_MAP (lower language_code)")
  case (Some d)
  from VOICE_MAP_lookup [OF Some] obtain m f where "d = mf m f" by blast
  with Some get_or_female_total [of m f gender] show ?thesis
    by (simp add: get_voice_def)
next
  case None
  with assms obtain d where d: "map_of VOICE_MAP (split_first CHR ''-'' (lower language_code)) = Some d"
    by auto
  from VOICE_MAP_lookup [OF d] obtain m f where "d = mf m f" by blast
  with None d get_or_female_total [of m f gender] show ?thesis
    by (simp add: get_voice_def Let_def)
qed

lemma get_voice_known_gender_total:
  assumes "gender = ''male'' \<or> gender = ''female''"
  shows "\<exists>v. get_voice language_code gender = Inr v"
proof (cases "map_of VOICE_MAP (lower language_code) \<noteq> None \<or>
           map_of VOICE_MAP (split_first CHR ''-'' (lower language_code)) \<noteq> None")
  case True
  then show ?thesis by (rule get_voice_matched_total)
next
  case False
  have en: "getitem VOICE_MAP ''en'' = Inr (mf ''en-US-GuyNeural'' ''en-US-JennyNeural'')"
    by (simp add: getitem_def VOICE_MAP_def)
  have "get_voice language_code gender =
          getitem (mf ''en-US-GuyNeural'' ''en-US-JennyNeural'') gender"
    using False by (simp add: get_voice_def Let_def en)
  with assms show ?thesis
    by (auto simp: getitem_def mf_def)
qed

text \<open>
  C10. Voice lookup is claimed total for every language code and gender string. The exact
  and the base-language branch default to the female voice for an unknown gender key; the
  final English default indexes \<^verbatim>\<open>VOICE_MAP["en"][gender]\<close> without a default. For the
  language code \<^verbatim>\<open>"xx"\<close> (no exact match, no base-language match) and the gender
  \<^verbatim>\<open>"unknown"\<close> the lookup raises \<^verbatim>\<open>KeyError\<close> instead of returning a voice name.
\<close>

theorem get_voice_default_unknown_gender_raises:
  "get_voice ''xx'' ''unknown'' = Inl (KeyError ''unknown'')"
  by (simp add: get_voice_def VOICE_MAP_def string_eval)


section \<open>Gender classification from pitch (\<^verbatim>\<open>smart_diarize.classify_gender\<close>)\<close>

text \<open>
  \<^verbatim>\<open>round(x, ndigits)\<close>: the nearest multiple of \<open>10\<^sup>-\<^sup>n\<close>, a tie going to the even
  neighbour.
\<close>

definition py_round :: "real \<Rightarrow> nat \<Rightarrow> real" where
  "py_round x ndigits =
     (let y = x * 10 ^ ndigits;
          f = \<lfloor>y\<rfloor>;
          d = y - of_int f
      in of_int (if d < 1 / 2 then f else if 1 / 2 < d then f + 1
                 else if even f then f else f + 1) / 10 ^ ndigits)"









section \<open>Per-segment synthesis (\<^verbatim>\<open>edge_tts_dub.py\<close>)\<close>

subsection \<open>Decimal integers in strings\<close>

definition digit_char :: "nat \<Rightarrow> char" where
  "digit_char d = ''0123456789'' ! d"

text \<open>\<^verbatim>\<open>str(n)\<close> for a natural number and for an integer.\<close>

fun show_nat :: "nat \<Rightarrow> string" where
  "show_nat n = (if n < 10 then [digit_char n] else show_nat (n div 10) @ [digit_char (n mod 10)])"

declare show_nat.simps [simp del]

definition show_int :: "int \<Rightarrow> string" where
  "show_int i = (if i < 0 then CHR ''-'' # show_nat (nat (- i)) else show_nat (nat i))"

definition digit_val :: "char \<Rightarrow> nat" where
  "digit_val c = of_char c - 48"

definition parse_nat :: "string \<Rightarrow> nat option" where
  "parse_nat s =
     (if s \<noteq> [] \<and> list_all is_digit s
      then Some (foldl (\<lambda>a c. 10 * a + digit_val c) 0 s) else None)"

text \<open>
  \<^verbatim>\<open>int(s)\<close> on a string: surrounding white space, an optional sign and decimal digits;
  \<open>None\<close> stands for \<^verbatim>\<open>ValueError\<close>. (Python also accepts underscores between digits; no
  rate string of the program has one.)
\<close>

definition py_int_of_str :: "string \<Rightarrow> int option" where
  "py_int_of_str s =
     (case strip s of
        [] \<Rightarrow> None
      | c # ds \<Rightarrow>
          if c = CHR ''+'' then map_option int (parse_nat ds)
          else if c = CHR ''-'' then map_option (\<lambda>n. - int n) (parse_nat ds)
          else map_option int (parse_nat (c # ds)))"

text \<open>\<^verbatim>\<open>int(x)\<close> on a float: truncation toward zero.\<close>

definition py_int_of_float :: "real \<Rightarrow> int" where
  "py_int_of_float x = (if 0 \<le> x then \<lfloor>x\<rfloor> else \<lceil>x\<rceil>)"

subsection \<open>Rates\<close>

definition parse_rate :: "string \<Rightarrow> int" where
  "parse_rate rate_str =
     (case py_int_of_str (strip (filter (\<lambda>c. c \<noteq> CHR ''%'') rate_str)) of
        Some i \<Rightarrow> i
      | None \<Rightarrow> 0)"

definition combine_rates :: "string \<Rightarrow> int \<Rightarrow> string" where
  "combine_rates emotion_rate alignment_rate =
     (let emotion_int = parse_rate emotion_rate;
          combined = emotion_int + alignment_rate;
          combined = max (- 50) (min 100 combined)
      in if combined \<ge> 0 then ''+'' @ show_int combined @ ''%''
         else show_int combined @ ''%'')"

subsection \<open>Emotion detection and text clean-up\<close>

record emotion_config =
  e_emotion :: string
  e_rate :: string
  e_pitch :: string

text \<open>\<^verbatim>\<open>EMOTION_KEYWORDS\<close> in the order of the source: emotion, rate, pitch, keywords.\<close>

definition EMOTION_KEYWORDS :: "(string \<times> string \<times> string \<times> string list) list" where
  "EMOTION_KEYWORDS =
    [(''angry'', ''+15%'', ''+10Hz'',
        [''angry'', ''furious'', ''rage'', ''hate'', ''damn'', ''hell'']),
     (''sad'', ''-10%'', ''-5Hz'',
        [''sad'', ''sorry'', ''grief'', ''cry'', ''tears'', ''miss'', ''lost'']),
     (''excited'', ''+20%'', ''+15Hz'',
        [''wow'', ''amazing'', ''incredible'', ''excited'', ''great'', ''yes!'']),
     (''fearful'', ''+5%'', ''+5Hz'',
        [''scared'', ''afraid'', ''fear'', ''help'', ''run'', ''danger'']),
     (''whisper'', ''-15%'', ''-10Hz'',
        [''shh'', ''quiet'', ''whisper'', ''secret'', ''psst'']),
     (''question'', ''+0%'', ''+8Hz'',
        [''?'', ''what'', ''why'', ''how'', ''who'', ''where'', ''when''])]"

definition detect_emotion :: "string \<Rightarrow> emotion_config" where
  "detect_emotion txt =
     (let text_lower = lower txt in
      case find (\<lambda>(emotion, rate, pitch, keywords). list_ex (contains text_lower) keywords)
             EMOTION_KEYWORDS of
        Some (emotion, rate, pitch, keywords) \<Rightarrow>
          \<lparr>e_emotion = emotion, e_rate = rate, e_pitch = pitch\<rparr>
      | None \<Rightarrow> \<lparr>e_emotion = ''neutral'', e_rate = ''+0%'', e_pitch = ''+0Hz''\<rparr>)"

text \<open>\<^verbatim>\<open>re.sub(r'\s+', ' ', s)\<close>: every maximal run of white space becomes one blank.\<close>

fun squeeze_ws :: "bool \<Rightarrow> string \<Rightarrow> string" where
  "squeeze_ws in_run [] = []"
| "squeeze_ws in_run (c # cs) =
     (if is_space c then (if in_run then squeeze_ws True cs else CHR '' '' # squeeze_ws True cs)
      else c # squeeze_ws False cs)"

text \<open>
  \<^verbatim>\<open>re.sub(ch{k,}, repl, s)\<close>: every maximal run of at least \<open>k\<close> characters \<open>ch\<close> becomes
  \<open>repl\<close>; \<open>n\<close> counts the characters \<open>ch\<close> of the run being read.
\<close>

definition flush_run :: "char \<Rightarrow> nat \<Rightarrow> string \<Rightarrow> nat \<Rightarrow> string" where
  "flush_run ch k repl n = (if k \<le> n then repl else replicate n ch)"

fun cap_run :: "char \<Rightarrow> nat \<Rightarrow> string \<Rightarrow> nat \<Rightarrow> string \<Rightarrow> string" where
  "cap_run ch k repl n [] = flush_run ch k repl n"
| "cap_run ch k repl n (c # cs) =
     (if c = ch then cap_run ch k repl (Suc n) cs
      else flush_run ch k repl n @ c # cap_run ch k repl 0 cs)"

definition enhance_text_for_natural_speech :: "string \<Rightarrow> string" where
  "enhance_text_for_natural_speech txt =
     (if txt = [] \<or> strip txt = [] then txt
      else
        let enhanced = strip txt;
            enhanced = squeeze_ws False enhanced;
            enhanced = cap_run CHR ''!'' 3 ''!!'' 0 enhanced;
            enhanced = cap_run CHR ''?'' 3 ''??'' 0 enhanced;
            enhanced = cap_run CHR ''.'' 4 ''...'' 0 enhanced
        in enhanced)"


subsection \<open>One segment: \<^verbatim>\<open>generate_segment_audio\<close>\<close>

text \<open>
  The state of the output file after a call of \<^verbatim>\<open>Communicate.save\<close>: whether it exists, its
  size in bytes, and the duration \<^verbatim>\<open>get_audio_duration\<close> reports for it (0 when the probe
  fails). A call may raise instead.
\<close>

record tts_file =
  f_exists :: bool
  f_size :: nat
  f_duration :: real

datatype save_outcome = SaveRaised string | Saved tts_file

text \<open>
  The primary provider as seen by one call of \<^verbatim>\<open>generate_segment_audio\<close>: the outcome of
  its \<open>k\<close>-th render, counted from 0.
\<close>

type_synonym edge_env = "nat \<Rightarrow> save_outcome"

text \<open>A render request, \<^verbatim>\<open>edge_tts.Communicate(text, voice, rate=.., pitch=..)\<close>.\<close>

record render =
  r_text :: string
  r_voice :: string
  r_rate :: string
  r_pitch :: string

record segment =
  seg_id :: nat
  seg_text :: string
  seg_start :: real
  seg_end :: real
  seg_duration :: "real option"

text \<open>The dictionary returned on success.\<close>

record segment_audio =
  sa_segment_id :: nat
  sa_start :: real
  sa_end :: real
  sa_target_duration :: "real option"
  sa_actual_duration :: real
  sa_sync_error :: real
  sa_sync_quality :: string
  sa_emotion :: string
  sa_final_rate :: string
  sa_file_size :: nat
  sa_attempts :: nat

text \<open>
  The dictionary returned on failure: the empty text, or the last error and the number of
  attempts (\<^verbatim>\<open>last_error\<close> stays \<^verbatim>\<open>None\<close> when no attempt was made).
\<close>

datatype segment_failure = EmptySegmentText | AttemptsFailed "string option" nat

definition sync_quality_of :: "real \<Rightarrow> string" where
  "sync_quality_of sync_error =
     (if \<bar>sync_error\<bar> \<le> 0.5 then ''good''
      else if \<bar>sync_error\<bar> \<le> 1.0 then ''fair'' else ''poor'')"

text \<open>
  The emotion's base rate for a text, and the alignment adjustment
  \<^verbatim>\<open>int(((actual_duration / target_duration) - 1) * 100)\<close>.
\<close>

definition base_rate_of :: "string \<Rightarrow> string" where
  "base_rate_of txt = e_rate (detect_emotion (enhance_text_for_natural_speech txt))"

definition rate_adjustment_of :: "real \<Rightarrow> real \<Rightarrow> int" where
  "rate_adjustment_of actual_duration target_duration =
     py_int_of_float ((actual_duration / target_duration - 1) * 100)"

text \<open>
  The body of the retry loop: one attempt, starting with render number \<open>k\<close>. It returns
  the error message of the exception that ended the attempt or the attempt's measurements
  (final duration, sync error, final rate, file size, emotion), the renders requested, and
  the number of the next render. The alignment is tried under the guard
  \<^verbatim>\<open>target_duration and target_duration > 0 and actual_duration > 0\<close>.
\<close>

definition synth_attempt ::
  "edge_env \<Rightarrow> nat \<Rightarrow> string \<Rightarrow> string \<Rightarrow> real option \<Rightarrow>
     (string + (real \<times> real \<times> string \<times> nat \<times> string)) \<times> render list \<times> nat" where
  "synth_attempt env k txt voice target_duration =
     (let enhanced_text = enhance_text_for_natural_speech txt;
          emotion_cfg = detect_emotion enhanced_text;
          base_rate = base_rate_of txt;
          pitch = e_pitch emotion_cfg;
          first = \<lparr>r_text = enhanced_text, r_voice = voice, r_rate = base_rate, r_pitch = pitch\<rparr>
      in case env k of
           SaveRaised e \<Rightarrow> (Inl e, [first], k + 1)
         | Saved f \<Rightarrow>
             if \<not> f_exists f then (Inl ''Output file was not created'', [first], k + 1)
             else if f_size f < 100 then
               (Inl (''Output file too small ('' @ show_nat (f_size f) @ '' bytes)''),
                [first], k + 1)
             else
               (let actual_duration = f_duration f;
                    unaligned = (Inr (actual_duration, 0, base_rate, f_size f,
                                      e_emotion emotion_cfg), [first], k + 1)
                in case target_duration of
                     None \<Rightarrow> unaligned
                   | Some t \<Rightarrow>
                       if t \<noteq> 0 \<and> t > 0 \<and> actual_duration > 0 then
                         (let sync_error = actual_duration - t in
                          if \<bar>sync_error\<bar> > 0.3 then
                            (let rate_adjustment = rate_adjustment_of actual_duration t;
                                 final_rate = combine_rates base_rate rate_adjustment;
                                 again = \<lparr>r_text = enhanced_text, r_voice = voice,
                                          r_rate = final_rate, r_pitch = pitch\<rparr>
                             in case env (k + 1) of
                                  SaveRaised e \<Rightarrow> (Inl e, [first, again], k + 2)
                                | Saved f2 \<Rightarrow>
                                    (Inr (f_duration f2, f_duration f2 - t, final_rate,
                                          (if f_exists f2 then f_size f2 else 0),
                                          e_emotion emotion_cfg),
                                     [first, again], k + 2))
                          else (Inr (actual_duration, sync_error, base_rate, f_size f,
                                     e_emotion emotion_cfg), [first], k + 1))
                       else unaligned))"

text \<open>
  \<^verbatim>\<open>for attempt in range(max_retries)\<close>: \<open>remaining\<close> attempts are left, \<open>attempt\<close> is the
  number of the next one. The back-off sleeps between attempts are not modelled.
\<close>

fun synth_attempts ::
  "edge_env \<Rightarrow> nat \<Rightarrow> segment \<Rightarrow> string \<Rightarrow> string \<Rightarrow> real option \<Rightarrow> nat \<Rightarrow>
     nat \<Rightarrow> nat \<Rightarrow> string option \<Rightarrow> (segment_failure + segment_audio) \<times> render list" where
  "synth_attempts env k seg txt voice target_duration max_retries attempt 0 last_error =
     (Inl (AttemptsFailed last_error max_retries), [])"
| "synth_attempts env k seg txt voice target_duration max_retries attempt (Suc remaining)
     last_error =
     (case synth_attempt env k txt voice target_duration of
        (Inr (actual_duration, sync_error, final_rate, file_size, emotion), renders, k') \<Rightarrow>
          (Inr \<lparr>sa_segment_id = seg_id seg, sa_start = seg_start seg, sa_end = seg_end seg,
                sa_target_duration = target_duration,
                sa_actual_duration = py_round actual_duration 3,
                sa_sync_error = py_round sync_error 3,
                sa_sync_quality = sync_quality_of sync_error,
                sa_emotion = emotion, sa_final_rate = final_rate,
                sa_file_size = file_size, sa_attempts = attempt + 1\<rparr>, renders)
      | (Inl e, renders, k') \<Rightarrow>
          (let (res, later) =
                 synth_attempts env k' seg txt voice target_duration max_retries
                   (attempt + 1) remaining (Some e)
           in (res, renders @ later)))"

definition generate_segment_audio ::
  "edge_env \<Rightarrow> segment \<Rightarrow> string \<Rightarrow> real option \<Rightarrow> nat \<Rightarrow>
     (segment_failure + segment_audio) \<times> render list" where
  "generate_segment_audio env seg voice target_duration max_retries =
     (let txt = strip (seg_text seg) in
      if txt = [] then (Inl EmptySegmentText, [])
      else synth_attempts env 0 seg txt voice target_duration max_retries 0 max_retries None)"

subsection \<open>All segments: \<^verbatim>\<open>generate_segments_audio\<close>\<close>

record segments_report =
  rep_success :: bool
  rep_total_segments :: nat
  rep_successful :: nat
  rep_failed :: nat
  rep_sync_stats :: "string \<Rightarrow> nat"
  rep_overall_sync_quality :: string
  rep_segments :: "(segment_failure + segment_audio) list"

text \<open>
  The loop over \<^verbatim>\<open>enumerate(segments)\<close>; \<open>envs i\<close> is the primary provider as seen while
  segment \<open>i\<close> is synthesised. The accumulator holds \<^verbatim>\<open>results\<close>, \<^verbatim>\<open>successful\<close>,
  \<^verbatim>\<open>failed\<close> and \<^verbatim>\<open>sync_stats\<close>.
\<close>

fun segments_loop ::
  "(nat \<Rightarrow> edge_env) \<Rightarrow> string \<Rightarrow> nat \<Rightarrow> segment list \<Rightarrow>
     (segment_failure + segment_audio) list \<times> nat \<times> nat \<times> (string \<Rightarrow> nat) \<Rightarrow>
     (segment_failure + segment_audio) list \<times> nat \<times> nat \<times> (string \<Rightarrow> nat)" where
  "segments_loop envs voice i [] acc = acc"
| "segments_loop envs voice i (seg # segs) (results, successful, failed, sync_stats) =
     (let result = fst (generate_segment_audio (envs i) seg voice (seg_duration seg) 3) in
      segments_loop envs voice (i + 1) segs
        (case result of
           Inr ok \<Rightarrow>
             (results @ [result], successful + 1, failed,
              sync_stats (sa_sync_quality ok := sync_stats (sa_sync_quality ok) + 1))
         | Inl err \<Rightarrow> (results @ [result], successful, failed + 1, sync_stats)))"

definition generate_segments_audio ::
  "(nat \<Rightarrow> edge_env) \<Rightarrow> segment list \<Rightarrow> string \<Rightarrow> string + segments_report" where
  "generate_segments_audio envs segments voice =
     (if segments = [] then Inl ''No segments found in file''
      else
        let (results, successful, failed, sync_stats) =
              segments_loop envs voice 0 segments ([], 0, 0, (\<lambda>q. 0));
            n = real (length segments);
            overall_quality =
              (if real (sync_stats ''good'') > n * 0.7 then ''good''
               else if real (sync_stats ''poor'') < n * 0.3 then ''fair'' else ''poor'')
        in Inr \<lparr>rep_success = (real failed < n * 0.2),
                rep_total_segments = length segments,
                rep_successful = successful,
                rep_failed = failed,
                rep_sync_stats = sync_stats,
                rep_overall_sync_quality = overall_quality,
                rep_segments = results\<rparr>)"


subsection \<open>Rate strings: printing and parsing agree\<close>












subsection \<open>The alignment re-render\<close>

text \<open>Example inputs: a segment from 0 s to 3 s and valid output files of a given duration.\<close>

definition good_file :: "real \<Rightarrow> save_outcome" where
  "good_file d = Saved \<lparr>f_exists = True, f_size = 5000, f_duration = d\<rparr>"

definition alpha_segment :: segment where
  "alpha_segment =
     \<lparr>seg_id = 0, seg_text = ''Alpha'', seg_start = 0, seg_end = 3, seg_duration = Some 3\<rparr>"

lemmas text_eval =
  strip_def lstrip_def rstrip_def is_space_def lower_def lower_char_def
  enhance_text_for_natural_speech_def flush_run_def detect_emotion_def EMOTION_KEYWORDS_def
  base_rate_of_def

lemma alpha_text: "strip ''Alpha'' = ''Alpha''"
  by (simp add: text_eval)

lemma alpha_base_rate: "base_rate_of ''Alpha'' = ''+0%''"
  by (simp add: text_eval)

lemma alpha_enhanced: "enhance_text_for_natural_speech ''Alpha'' = ''Alpha''"
  by (simp add: text_eval)

lemma alpha_emotion: "detect_emotion ''Alpha'' = \<lparr>e_emotion = ''neutral'', e_rate = ''+0%'', e_pitch = ''+0Hz''\<rparr>"
  by (simp add: text_eval)





subsection \<open>Acceptance of the synthesis stage\<close>

text \<open>
  A segment's synthesis failed when \<^verbatim>\<open>generate_segment_audio\<close> returns a failure for it;
  this includes the segments whose text is empty.
\<close>

definition synthesis_failed :: "(nat \<Rightarrow> edge_env) \<Rightarrow> string \<Rightarrow> nat \<times> segment \<Rightarrow> bool" where
  "synthesis_failed envs voice =
     (\<lambda>(i, seg). isl (fst (generate_segment_audio (envs i) seg voice (seg_duration seg) 3)))"

definition failed_count :: "(nat \<Rightarrow> edge_env) \<Rightarrow> string \<Rightarrow> segment list \<Rightarrow> nat" where
  "failed_count envs voice segments =
     length (filter (synthesis_failed envs voice) (enumerate 0 segments))"

definition report_success :: "string + segments_report \<Rightarrow> bool" where
  "report_success res = (case res of Inl e \<Rightarrow> False | Inr rep \<Rightarrow> rep_success rep)"

text \<open>
  The acceptance rule as the specification words it: at least 80% of the non-empty
  segments produced an audio file.
\<close>

definition spec_synthesis_accepted ::
  "(nat \<Rightarrow> edge_env) \<Rightarrow> string \<Rightarrow> segment list \<Rightarrow> bool" where
  "spec_synthesis_accepted envs voice segments =
     (let non_empty = filter (\<lambda>(i, seg). strip (seg_text seg) \<noteq> []) (enumerate 0 segments);
          produced = filter (\<lambda>p. \<not> synthesis_failed envs voice p) non_empty
      in 100 * length produced \<ge> 80 * length non_empty)"

lemma empty_text_fails:
  "strip (seg_text seg) = [] \<Longrightarrow> synthesis_failed envs voice (i, seg)"
  by (simp add: synthesis_failed_def generate_segment_audio_def)

lemma segments_loop_failed:
  "segments_loop envs voice i segs (results, successful, failed, stats) = (results', successful', failed', stats')
   \<Longrightarrow> failed' = failed + length (filter (synthesis_failed envs voice) (enumerate i segs))"
proof (induction segs arbitrary: i results successful failed stats)
  case Nil
  then show ?case by simp
next
  case (Cons seg segs)
  show ?case
  proof (cases "fst (generate_segment_audio (envs i) seg voice (seg_duration seg) 3)")
    case (Inl err)
    with Cons.prems have
      "segments_loop envs voice (Suc i) segs (results @ [Inl err], successful, failed + 1, stats)
         = (results', successful', failed', stats')"
      by (simp add: Let_def)
    from Cons.IH [OF this] Inl show ?thesis
      by (simp add: synthesis_failed_def)
  next
    case (Inr ok)
    with Cons.prems have
      "segments_loop envs voice (Suc i) segs
         (results @ [Inr ok], successful + 1, failed,
          stats (sa_sync_quality ok := stats (sa_sync_quality ok) + 1))
         = (results', successful', failed', stats')"
      by (simp add: Let_def)
    from Cons.IH [OF this] Inr show ?thesis
      by (simp add: synthesis_failed_def)
  qed
qed

text \<open>Example inputs: five segments, and a provider that fails for the first of them only.\<close>

definition empty_segment :: segment where
  "empty_segment =
     \<lparr>seg_id = 4, seg_text = ''  '', seg_start = 12, seg_end = 15, seg_duration = Some 3\<rparr>"

definition first_fails :: "nat \<Rightarrow> edge_env" where
  "first_fails i k = (if i = 0 then SaveRaised ''connection refused'' else good_file 3)"

lemma alpha_ok:
  "fst (generate_segment_audio (\<lambda>k. good_file 3) alpha_segment ''v'' (Some 3) 3) =
     Inr \<lparr>sa_segment_id = 0, sa_start = 0, sa_end = 3, sa_target_duration = Some 3,
          sa_actual_duration = 3, sa_sync_error = 0, sa_sync_quality = ''good'',
          sa_emotion = ''neutral'', sa_final_rate = ''+0%'', sa_file_size = 5000,
          sa_attempts = 1\<rparr>"
  by (simp add: generate_segment_audio_def alpha_segment_def alpha_text synth_attempt_def
        alpha_base_rate alpha_enhanced alpha_emotion good_file_def Let_def numeral_3_eq_3
        py_round_def sync_quality_of_def)

lemma alpha_fails:
  "fst (generate_segment_audio (\<lambda>k. SaveRaised ''connection refused'') alpha_segment ''v''
          (Some 3) 3) = Inl (AttemptsFailed (Some ''connection refused'') 3)"
  by (simp add: generate_segment_audio_def alpha_segment_def alpha_text synth_attempt_def
        alpha_base_rate alpha_enhanced alpha_emotion Let_def numeral_3_eq_3)

lemma empty_fails:
  "fst (generate_segment_audio env empty_segment ''v'' (Some 3) 3) = Inl EmptySegmentText"
  by (simp add: generate_segment_audio_def empty_segment_def strip_def lstrip_def rstrip_def
        is_space_def)

text \<open>
  C6 (as stated) fails in both respects. With five non-empty segments of which one fails
  all its attempts, 80% of the non-empty segments produced audio, yet the stage reports
  failure: the code requires strictly fewer than 20% failures. With four segments that
  succeed and one segment of blank text, every non-empty segment produced audio, yet the
  stage reports failure: a segment with empty text counts as failed and the percentage is
  taken over all segments.
\<close>

theorem synthesis_acceptance_counterexample:
  "spec_synthesis_accepted first_fails ''v''
     [alpha_segment, alpha_segment, alpha_segment, alpha_segment, alpha_segment] \<and>
   \<not> report_success (generate_segments_audio first_fails
        [alpha_segment, alpha_segment, alpha_segment, alpha_segment, alpha_segment] ''v'') \<and>
   spec_synthesis_accepted (\<lambda>i k. good_file 3) ''v''
     [alpha_segment, alpha_segment, alpha_segment, alpha_segment, empty_segment] \<and>
   \<not> report_success (generate_segments_audio (\<lambda>i k. good_file 3)
        [alpha_segment, alpha_segment, alpha_segment, alpha_segment, empty_segment] ''v'')"
proof -
  have sd: "seg_duration alpha_segment = Some 3" "seg_duration empty_segment = Some 3"
    "strip (seg_text alpha_segment) = ''Alpha''" "strip (seg_text empty_segment) = []"
    by (simp_all add: alpha_segment_def empty_segment_def alpha_text strip_def lstrip_def
          rstrip_def is_space_def)
  have ff: "first_fails 0 = (\<lambda>k. SaveRaised ''connection refused'')"
    "\<And>i. 0 < i \<Longrightarrow> first_fails i = (\<lambda>k. good_file 3)"
    by (auto simp: first_fails_def)
  show ?thesis
    by (simp add: spec_synthesis_accepted_def report_success_def generate_segments_audio_def
          synthesis_failed_def enumerate_eq_zip upt_rec sd ff alpha_ok alpha_fails empty_fails
          Let_def)
qed

text \<open>
  C6 (amended). The synthesis stage reports overall success if and only if the segment
  list is not empty and the number of failed segments, segments with empty text included,
  is strictly less than 20% of the number of all segments.
\<close>

theorem synthesis_success_iff:
  "report_success (generate_segments_audio envs segments voice) =
     (segments \<noteq> [] \<and>
      real (failed_count envs voice segments) < real (length segments) * 0.2)"
proof (cases "segments = []")
  case True
  then show ?thesis by (simp add: generate_segments_audio_def report_success_def)
next
  case False
  obtain results successful failed stats where
    loop: "segments_loop envs voice 0 segments ([], 0, 0, (\<lambda>q. 0)) =
             (results, successful, failed, stats)"
    by (metis prod_cases4)
  from segments_loop_failed [OF loop]
  have "failed = failed_count envs voice segments" by (simp add: failed_count_def)
  with False loop show ?thesis
    by (simp add: generate_segments_audio_def report_success_def Let_def)
qed


section \<open>Provider fallback (\<^verbatim>\<open>edge_tts_dub.generate_audio\<close>)\<close>

text \<open>The module's global variables.\<close>

record tts_globals =
  EDGE_TTS_WORKING :: "bool option"
  EDGE_TTS_CONSECUTIVE_FAILURES :: nat

text \<open>
  What one call of \<^verbatim>\<open>generate_audio\<close> sees of the outside: the outcome of the
  \<open>k\<close>-th primary (Edge TTS) attempt of the call, whether the gTTS library was imported,
  and the outcome of a gTTS render.
\<close>

record audio_env =
  ae_edge :: "nat \<Rightarrow> save_outcome"
  ae_gtts_available :: bool
  ae_gtts :: save_outcome

datatype provider_call = EdgeCall | GttsCall

text \<open>
  The dictionary returned: on success the engine, the voice, the file size, the text
  length and (for the primary) the number of attempts; on failure the last error, the
  voice and \<^verbatim>\<open>max_retries\<close>.
\<close>

datatype audio_result =
  AudioOk string string nat nat "nat option"
| AudioFailed string string nat

definition get_gtts_lang :: "string \<Rightarrow> string" where
  "get_gtts_lang voice =
     (if CHR ''-'' \<in> set voice then lower (split_first CHR ''-'' voice) else ''en'')"

text \<open>\<^verbatim>\<open>generate_audio_gtts_sync\<close>: \<open>Inl\<close> holds the error message.\<close>

definition generate_audio_gtts_sync ::
  "audio_env \<Rightarrow> string \<Rightarrow> string \<Rightarrow> string + audio_result" where
  "generate_audio_gtts_sync env txt language =
     (if \<not> ae_gtts_available env then Inl ''gTTS not available''
      else case ae_gtts env of
             SaveRaised e \<Rightarrow> Inl (''gTTS error: '' @ e)
           | Saved f \<Rightarrow>
               if f_exists f \<and> f_size f > 100
               then Inr (AudioOk ''gtts'' (''gTTS-'' @ language) (f_size f) (length txt) None)
               else Inl ''gTTS produced empty file'')"

text \<open>
  One primary attempt (the body of the \<^verbatim>\<open>try\<close>): the file size, or the message of the
  exception raised by the render or by the checks of the output file.
\<close>

definition edge_attempt :: "save_outcome \<Rightarrow> string + nat" where
  "edge_attempt out =
     (case out of
        SaveRaised e \<Rightarrow> Inl e
      | Saved f \<Rightarrow>
          if \<not> f_exists f then Inl ''Output file was not created''
          else if f_size f < 100
            then Inl (''Output file too small ('' @ show_nat (f_size f) @ '' bytes)'')
          else Inr (f_size f))"

text \<open>
  The primary's retry loop, \<^verbatim>\<open>for attempt in range(max_retries)\<close>: the attempt number and
  file size of the first attempt that succeeds, or the last error; with the calls made.
\<close>

fun edge_attempts ::
  "(nat \<Rightarrow> save_outcome) \<Rightarrow> nat \<Rightarrow> nat \<Rightarrow> string \<Rightarrow>
     (string + nat \<times> nat) \<times> provider_call list" where
  "edge_attempts edge attempt 0 last_error = (Inl last_error, [])"
| "edge_attempts edge attempt (Suc remaining) last_error =
     (case edge_attempt (edge attempt) of
        Inr file_size \<Rightarrow> (Inr (attempt + 1, file_size), [EdgeCall])
      | Inl e \<Rightarrow>
          (let (res, calls) = edge_attempts edge (attempt + 1) remaining e
           in (res, EdgeCall # calls)))"

text \<open>The last part of \<^verbatim>\<open>generate_audio\<close>: gTTS as fallback, or as the only provider.\<close>

definition gtts_stage ::
  "audio_env \<Rightarrow> string \<Rightarrow> string \<Rightarrow> nat \<Rightarrow> string \<Rightarrow> audio_result \<times> provider_call list"
  where
  "gtts_stage env txt voice max_retries last_error =
     (if ae_gtts_available env then
        (case generate_audio_gtts_sync env txt (get_gtts_lang voice) of
           Inr ok \<Rightarrow> (ok, [GttsCall])
         | Inl e \<Rightarrow> (AudioFailed last_error voice max_retries, [GttsCall]))
      else (AudioFailed last_error voice max_retries, []))"

definition generate_audio ::
  "audio_env \<Rightarrow> tts_globals \<Rightarrow> string \<Rightarrow> string \<Rightarrow> string \<Rightarrow> string \<Rightarrow> nat \<Rightarrow>
     audio_result \<times> provider_call list \<times> tts_globals" where
  "generate_audio env g txt voice rate pitch max_retries =
     (let last_error = ''Edge TTS unavailable'';
          skip_edge_tts = (EDGE_TTS_CONSECUTIVE_FAILURES g \<ge> 3)
      in if \<not> skip_edge_tts then
           (case edge_attempts (ae_edge env) 0 max_retries last_error of
              (Inr (attempts, file_size), calls) \<Rightarrow>
                (AudioOk ''edge'' voice file_size (length txt) (Some attempts), calls,
                 g\<lparr>EDGE_TTS_WORKING := Some True, EDGE_TTS_CONSECUTIVE_FAILURES := 0\<rparr>)
            | (Inl last_error, calls) \<Rightarrow>
                (let g' = g\<lparr>EDGE_TTS_WORKING := Some False,
                             EDGE_TTS_CONSECUTIVE_FAILURES :=
                               EDGE_TTS_CONSECUTIVE_FAILURES g + 1\<rparr>;
                     (res, more) = gtts_stage env txt voice max_retries last_error
                 in (res, calls @ more, g')))
         else
           (let (res, more) = gtts_stage env txt voice max_retries last_error
            in (res, more, g)))"

text \<open>
  A sequence of calls of \<^verbatim>\<open>generate_audio\<close> (as \<^verbatim>\<open>generate_multi_speaker_audio\<close> makes them,
  one per paragraph), each with its own view of the outside; the globals are threaded
  through.
\<close>

record audio_request =
  q_env :: audio_env
  q_text :: string
  q_voice :: string
  q_rate :: string
  q_pitch :: string
  q_max_retries :: nat

fun audio_calls ::
  "tts_globals \<Rightarrow> audio_request list \<Rightarrow> (audio_result \<times> provider_call list) list \<times> tts_globals"
  where
  "audio_calls g [] = ([], g)"
| "audio_calls g (q # qs) =
     (case generate_audio (q_env q) g (q_text q) (q_voice q) (q_rate q) (q_pitch q)
             (q_max_retries q) of
        (res, calls, g') \<Rightarrow>
          (let (rest, g'') = audio_calls g' qs in ((res, calls) # rest, g'')))"

text \<open>A primary attempt succeeds when it leaves a file of at least 100 bytes.\<close>

definition edge_attempt_ok :: "save_outcome \<Rightarrow> bool" where
  "edge_attempt_ok out =
     (case out of SaveRaised e \<Rightarrow> False | Saved f \<Rightarrow> f_exists f \<and> 100 \<le> f_size f)"

definition primary_fails :: "audio_request \<Rightarrow> bool" where
  "primary_fails q =
     list_all (\<lambda>k. \<not> edge_attempt_ok (ae_edge (q_env q) k)) [0..<q_max_retries q]"

definition primary_succeeds :: "audio_request \<Rightarrow> bool" where
  "primary_succeeds q =
     list_ex (\<lambda>k. edge_attempt_ok (ae_edge (q_env q) k)) [0..<q_max_retries q]"

text \<open>
  The renders requested of the primary provider for each segment when
  \<^verbatim>\<open>generate_segments_audio\<close> runs (it calls \<^verbatim>\<open>generate_segment_audio\<close> once per segment).
\<close>

definition segments_renders ::
  "(nat \<Rightarrow> edge_env) \<Rightarrow> string \<Rightarrow> segment list \<Rightarrow> render list list" where
  "segments_renders envs voice segments =
     map (\<lambda>(i, seg). snd (generate_segment_audio (envs i) seg voice (seg_duration seg) 3))
       (enumerate 0 segments)"


subsection \<open>The consecutive-failure counter\<close>

lemma edge_attempt_isl: "isl (edge_attempt out) = (\<not> edge_attempt_ok out)"
  by (auto simp: edge_attempt_def edge_attempt_ok_def split: save_outcome.splits)

lemma edge_attempts_isl:
  "isl (fst (edge_attempts edge a n last_error)) =
     list_all (\<lambda>k. \<not> edge_attempt_ok (edge k)) [a..<a + n]"
proof (induction n arbitrary: a last_error)
  case 0
  then show ?case by simp
next
  case (Suc n)
  have range: "[a..<a + Suc n] = a # [Suc a..<Suc a + n]"
    by (simp add: upt_rec)
  show ?case
  proof (cases "edge_attempt (edge a)")
    case (Inr file_size)
    with edge_attempt_isl [of "edge a"] show ?thesis
      unfolding range by simp
  next
    case (Inl e)
    have "isl (fst (edge_attempts edge a (Suc n) last_error)) =
            isl (fst (edge_attempts edge (Suc a) n e))"
      by (simp add: Inl split: prod.splits)
    with Suc.IH [of "Suc a" e] Inl edge_attempt_isl [of "edge a"] show ?thesis
      unfolding range by simp
  qed
qed

lemma gtts_stage_calls:
  "snd (gtts_stage env txt voice m e) = (if ae_gtts_available env then [GttsCall] else [])"
  by (simp add: gtts_stage_def split: sum.splits)

lemma generate_audio_skips:
  assumes "3 \<le> EDGE_TTS_CONSECUTIVE_FAILURES g"
  shows "generate_audio env g txt voice rate pitch m =
           (fst (gtts_stage env txt voice m ''Edge TTS unavailable''),
            (if ae_gtts_available env then [GttsCall] else []), g)"
proof -
  obtain res more where st: "gtts_stage env txt voice m ''Edge TTS unavailable'' = (res, more)"
    by (cases "gtts_stage env txt voice m ''Edge TTS unavailable''")
  with gtts_stage_calls [of env "txt" voice m "''Edge TTS unavailable''"]
  have "more = (if ae_gtts_available env then [GttsCall] else [])" by simp
  with assms st show ?thesis
    by (simp add: generate_audio_def Let_def)
qed

lemma generate_audio_failure_counts:
  assumes "EDGE_TTS_CONSECUTIVE_FAILURES g < 3"
    and "list_all (\<lambda>k. \<not> edge_attempt_ok (ae_edge env k)) [0..<m]"
  shows "EDGE_TTS_CONSECUTIVE_FAILURES (snd (snd (generate_audio env g txt voice rate pitch m)))
           = EDGE_TTS_CONSECUTIVE_FAILURES g + 1"
proof -
  from assms(2) edge_attempts_isl [of "ae_edge env" 0 m "''Edge TTS unavailable''"]
  have "isl (fst (edge_attempts (ae_edge env) 0 m ''Edge TTS unavailable''))" by simp
  then obtain e calls where
    "edge_attempts (ae_edge env) 0 m ''Edge TTS unavailable'' = (Inl e, calls)"
    by (cases "edge_attempts (ae_edge env) 0 m ''Edge TTS unavailable''") (auto simp: isl_def)
  with assms(1) show ?thesis
    by (simp add: generate_audio_def Let_def split: prod.splits)
qed

lemma generate_audio_success_resets:
  assumes "EDGE_TTS_CONSECUTIVE_FAILURES g < 3"
    and "list_ex (\<lambda>k. edge_attempt_ok (ae_edge env k)) [0..<m]"
  shows "EDGE_TTS_CONSECUTIVE_FAILURES (snd (snd (generate_audio env g txt voice rate pitch m)))
           = 0"
proof -
  from assms(2) have "\<not> list_all (\<lambda>k. \<not> edge_attempt_ok (ae_edge env k)) [0..<m]"
    by (auto simp: list_all_iff list_ex_iff)
  with edge_attempts_isl [of "ae_edge env" 0 m "''Edge TTS unavailable''"]
  have "\<not> isl (fst (edge_attempts (ae_edge env) 0 m ''Edge TTS unavailable''))" by simp
  moreover obtain x calls where
    xc: "edge_attempts (ae_edge env) 0 m ''Edge TTS unavailable'' = (x, calls)"
    by (cases "edge_attempts (ae_edge env) 0 m ''Edge TTS unavailable''")
  ultimately obtain r where "x = Inr r" by (cases x) auto
  moreover obtain attempts file_size where "r = (attempts, file_size)" by (cases r)
  ultimately show ?thesis
    using assms(1) xc by (simp add: generate_audio_def Let_def)
qed

lemma failing_call_counter:
  assumes "primary_fails q"
  shows "min 3 (EDGE_TTS_CONSECUTIVE_FAILURES g + 1) \<le>
           EDGE_TTS_CONSECUTIVE_FAILURES
             (snd (snd (generate_audio (q_env q) g (q_text q) (q_voice q) (q_rate q) (q_pitch q)
                          (q_max_retries q))))"
proof (cases "EDGE_TTS_CONSECUTIVE_FAILURES g < 3")
  case True
  with assms generate_audio_failure_counts [OF True] show ?thesis
    by (simp add: primary_fails_def)
next
  case False
  then have "3 \<le> EDGE_TTS_CONSECUTIVE_FAILURES g" by simp
  from generate_audio_skips [OF this] this show ?thesis by simp
qed

lemma audio_calls_counter:
  assumes "list_all primary_fails qs"
  shows "min 3 (EDGE_TTS_CONSECUTIVE_FAILURES g + length qs) \<le>
           EDGE_TTS_CONSECUTIVE_FAILURES (snd (audio_calls g qs))"
  using assms
proof (induction qs arbitrary: g)
  case Nil
  then show ?case by simp
next
  case (Cons q qs)
  define g' where
    "g' = snd (snd (generate_audio (q_env q) g (q_text q) (q_voice q) (q_rate q) (q_pitch q)
                      (q_max_retries q)))"
  have step: "min 3 (EDGE_TTS_CONSECUTIVE_FAILURES g + 1) \<le> EDGE_TTS_CONSECUTIVE_FAILURES g'"
    unfolding g'_def using Cons.prems by (intro failing_call_counter) simp
  have rest: "min 3 (EDGE_TTS_CONSECUTIVE_FAILURES g' + length qs) \<le>
                EDGE_TTS_CONSECUTIVE_FAILURES (snd (audio_calls g' qs))"
    using Cons.prems by (intro Cons.IH) simp
  have "snd (audio_calls g (q # qs)) = snd (audio_calls g' qs)"
    unfolding g'_def by (simp split: prod.splits)
  with step rest show ?case by simp
qed

lemma audio_calls_skipping:
  assumes "3 \<le> EDGE_TTS_CONSECUTIVE_FAILURES g"
  shows "audio_calls g qs =
           (map (\<lambda>q. (fst (gtts_stage (q_env q) (q_text q) (q_voice q) (q_max_retries q)
                              ''Edge TTS unavailable''),
                       if ae_gtts_available (q_env q) then [GttsCall] else [])) qs, g)"
  using assms
proof (induction qs)
  case Nil
  then show ?case by simp
next
  case (Cons q qs)
  then show ?case
    by (simp add: generate_audio_skips)
qed


text \<open>
  Example inputs: a primary provider that is unreachable, one that answers, and requests
  of three attempts each; four segments for \<^verbatim>\<open>generate_segments_audio\<close>.
\<close>

definition unreachable_env :: audio_env where
  "unreachable_env =
     \<lparr>ae_edge = (\<lambda>k. SaveRaised ''connection refused''), ae_gtts_available = True,
      ae_gtts = good_file 2\<rparr>"

definition reachable_env :: audio_env where
  "reachable_env =
     \<lparr>ae_edge = (\<lambda>k. good_file 2), ae_gtts_available = True, ae_gtts = good_file 2\<rparr>"

definition request_with :: "audio_env \<Rightarrow> audio_request" where
  "request_with env =
     \<lparr>q_env = env, q_text = ''Hello'', q_voice = ''en-US-GuyNeural'', q_rate = ''+0%'',
      q_pitch = ''+0Hz'', q_max_retries = 3\<rparr>"

definition initial_globals :: tts_globals where
  "initial_globals = \<lparr>EDGE_TTS_WORKING = None, EDGE_TTS_CONSECUTIVE_FAILURES = 0\<rparr>"

text \<open>
  C7 (as stated) fails for the per-segment synthesis of the S5 stage:
  \<^verbatim>\<open>generate_segment_audio\<close> neither reads nor updates the consecutive-failure counter and
  has no fallback provider. With a primary provider that refuses every render, four
  segments fail one after the other, and each of them, the fourth included, is rendered
  three times on the primary.
\<close>

theorem segment_synthesis_keeps_probing_counterexample:
  "map length (segments_renders (\<lambda>i k. SaveRaised ''connection refused'') ''v''
        [alpha_segment, alpha_segment, alpha_segment, alpha_segment]) = [3, 3, 3, 3] \<and>
   (case generate_segments_audio (\<lambda>i k. SaveRaised ''connection refused'')
           [alpha_segment, alpha_segment, alpha_segment, alpha_segment] ''v'' of
      Inl e \<Rightarrow> False
    | Inr rep \<Rightarrow> rep_failed rep = 4 \<and> rep_successful rep = 0)"
proof -
  have sd: "seg_duration alpha_segment = Some 3"
    by (simp add: alpha_segment_def)
  have renders: "length (snd (generate_segment_audio (\<lambda>k. SaveRaised ''connection refused'')
                                alpha_segment ''v'' (Some 3) 3)) = 3"
    by (simp add: generate_segment_audio_def alpha_segment_def alpha_text synth_attempt_def
          alpha_base_rate alpha_enhanced alpha_emotion Let_def numeral_3_eq_3)
  show ?thesis
    by (simp add: segments_renders_def generate_segments_audio_def enumerate_eq_zip upt_rec
          sd renders alpha_fails Let_def)
qed

text \<open>
  C7 (amended). For \<^verbatim>\<open>generate_audio\<close>: after three consecutive calls in which every
  primary attempt fails, the counter is at least 3; from then on every call makes no
  primary attempt (it calls gTTS once when gTTS is available, and no provider otherwise)
  and leaves the globals unchanged. While the counter is below 3, a call whose primary
  attempts all fail adds one to it and a call in which a primary attempt succeeds resets
  it to zero.
\<close>

theorem primary_skipped_after_three_failures:
  assumes "length fails = 3" and "list_all primary_fails fails"
  shows "3 \<le> EDGE_TTS_CONSECUTIVE_FAILURES (snd (audio_calls g fails)) \<and>
         map snd (fst (audio_calls (snd (audio_calls g fails)) later)) =
           map (\<lambda>q. if ae_gtts_available (q_env q) then [GttsCall] else []) later \<and>
         snd (audio_calls (snd (audio_calls g fails)) later) = snd (audio_calls g fails) \<and>
         (EDGE_TTS_CONSECUTIVE_FAILURES g < 3 \<and> primary_fails q \<longrightarrow>
            EDGE_TTS_CONSECUTIVE_FAILURES
              (snd (snd (generate_audio (q_env q) g (q_text q) (q_voice q) (q_rate q)
                           (q_pitch q) (q_max_retries q))))
              = EDGE_TTS_CONSECUTIVE_FAILURES g + 1) \<and>
         (EDGE_TTS_CONSECUTIVE_FAILURES g < 3 \<and> primary_succeeds q \<longrightarrow>
            EDGE_TTS_CONSECUTIVE_FAILURES
              (snd (snd (generate_audio (q_env q) g (q_text q) (q_voice q) (q_rate q)
                           (q_pitch q) (q_max_retries q))))
              = 0)"
proof -
  define g3 where "g3 = snd (audio_calls g fails)"
  have three: "3 \<le> EDGE_TTS_CONSECUTIVE_FAILURES g3"
    using audio_calls_counter [OF assms(2), of g] assms(1) unfolding g3_def by simp
  have later: "audio_calls g3 later =
                 (map (\<lambda>q. (fst (gtts_stage (q_env q) (q_text q) (q_voice q) (q_max_retries q)
                                    ''Edge TTS unavailable''),
                             if ae_gtts_available (q_env q) then [GttsCall] else [])) later, g3)"
    by (rule audio_calls_skipping [OF three])
  have calls: "map snd (fst (audio_calls g3 later)) =
                 map (\<lambda>q. if ae_gtts_available (q_env q) then [GttsCall] else []) later"
    unfolding later by (simp add: comp_def)
  have same: "snd (audio_calls g3 later) = g3"
    unfolding later by simp
  have counts: "EDGE_TTS_CONSECUTIVE_FAILURES g < 3 \<and> primary_fails q \<longrightarrow>
            EDGE_TTS_CONSECUTIVE_FAILURES
              (snd (snd (generate_audio (q_env q) g (q_text q) (q_voice q) (q_rate q)
                           (q_pitch q) (q_max_retries q))))
              = EDGE_TTS_CONSECUTIVE_FAILURES g + 1"
    using generate_audio_failure_counts by (simp add: primary_fails_def)
  have resets: "EDGE_TTS_CONSECUTIVE_FAILURES g < 3 \<and> primary_succeeds q \<longrightarrow>
            EDGE_TTS_CONSECUTIVE_FAILURES
              (snd (snd (generate_audio (q_env q) g (q_text q) (q_voice q) (q_rate q)
                           (q_pitch q) (q_max_retries q))))
              = 0"
    using generate_audio_success_resets by (simp add: primary_succeeds_def)
  show ?thesis
    using three calls same counts resets unfolding g3_def by blast
qed

theorem primary_skipped_after_three_failures_witness:
  "length [request_with unreachable_env, request_with unreachable_env,
           request_with unreachable_env] = 3 \<and>
   list_all primary_fails [request_with unreachable_env, request_with unreachable_env,
                           request_with unreachable_env] \<and>
   primary_succeeds (request_with reachable_env) \<and>
   map snd (fst (audio_calls
                   (snd (audio_calls initial_globals
                           [request_with unreachable_env, request_with unreachable_env,
                            request_with unreachable_env]))
                   [request_with reachable_env, request_with reachable_env])) =
     [[GttsCall], [GttsCall]] \<and>
   EDGE_TTS_CONSECUTIVE_FAILURES
     (snd (snd (generate_audio reachable_env initial_globals ''Hello'' ''en-US-GuyNeural''
                  ''+0%'' ''+0Hz'' 3))) = 0"
proof -
  have fails: "primary_fails (request_with unreachable_env)"
    by (simp add: primary_fails_def request_with_def unreachable_env_def edge_attempt_ok_def
          upt_rec)
  have succeeds: "primary_succeeds (request_with reachable_env)"
    by (simp add: primary_succeeds_def request_with_def reachable_env_def edge_attempt_ok_def
          good_file_def upt_rec)
  have init: "EDGE_TTS_CONSECUTIVE_FAILURES initial_globals < 3"
    by (simp add: initial_globals_def)
  from primary_skipped_after_three_failures
         [of "[request_with unreachable_env, request_with unreachable_env,
               request_with unreachable_env]" initial_globals
             "[request_with reachable_env, request_with reachable_env]"
             "request_with reachable_env"]
       fails succeeds init
  show ?thesis
    by (simp add: request_with_def reachable_env_def)
qed


section \<open>Voice assignment (\<^verbatim>\<open>server/tts/voice_selector.py\<close>)\<close>

record voice_entry =
  v_name :: string
  v_style :: string
  v_age :: string

definition general :: "string \<Rightarrow> voice_entry" where
  "general n = \<lparr>v_name = n, v_style = ''general'', v_age = ''adult''\<rparr>"

definition expressive :: "string \<Rightarrow> voice_entry" where
  "expressive n = \<lparr>v_name = n, v_style = ''expressive'', v_age = ''young_adult''\<rparr>"

text \<open>The entry of \<^verbatim>\<open>EDGE_TTS_VOICES\<close> for \<^verbatim>\<open>"en"\<close>, the language every unknown code falls back to.\<close>

definition en_voices :: "(string \<times> voice_entry list) list" where
  "en_voices =
     [(''male'', [general ''en-US-GuyNeural'', general ''en-US-DavisNeural'',
                  general ''en-US-TonyNeural'', general ''en-US-JasonNeural'',
                  general ''en-GB-RyanNeural'']),
      (''female'', [general ''en-US-JennyNeural'', expressive ''en-US-AriaNeural'',
                    general ''en-US-SaraNeural'', general ''en-US-MichelleNeural'',
                    general ''en-GB-SoniaNeural''])]"

definition EDGE_TTS_VOICES :: "(string \<times> (string \<times> voice_entry list) list) list" where
  "EDGE_TTS_VOICES =
     [(''en'', en_voices),
      (''es'', [(''male'', [general ''es-MX-JorgeNeural'', general ''es-ES-AlvaroNeural'']),
                (''female'', [general ''es-MX-DaliaNeural'', general ''es-ES-ElviraNeural''])]),
      (''fr'', [(''male'', [general ''fr-FR-HenriNeural'', general ''fr-CA-AntoineNeural'']),
                (''female'', [general ''fr-FR-DeniseNeural'', general ''fr-CA-SylvieNeural''])]),
      (''de'', [(''male'', [general ''de-DE-ConradNeural'', general ''de-AT-JonasNeural'']),
                (''female'', [general ''de-DE-KatjaNeural'', general ''de-AT-IngridNeural''])]),
      (''it'', [(''male'', [general ''it-IT-DiegoNeural'']),
                (''female'', [general ''it-IT-ElsaNeural'', general ''it-IT-IsabellaNeural''])]),
      (''pt'', [(''male'', [general ''pt-BR-AntonioNeural'', general ''pt-PT-DuarteNeural'']),
                (''female'', [general ''pt-BR-FranciscaNeural'', general ''pt-PT-RaquelNeural''])]),
      (''ru'', [(''male'', [general ''ru-RU-DmitryNeural'']),
                (''female'', [general ''ru-RU-SvetlanaNeural'', general ''ru-RU-DariyaNeural''])]),
      (''zh'', [(''male'', [general ''zh-CN-YunxiNeural'', general ''zh-CN-YunjianNeural'']),
                (''female'', [expressive ''zh-CN-XiaoxiaoNeural'', general ''zh-CN-XiaoyiNeural''])]),
      (''ja'', [(''male'', [general ''ja-JP-KeitaNeural'']),
                (''female'', [general ''ja-JP-NanamiNeural''])]),
      (''ko'', [(''male'', [general ''ko-KR-InJoonNeural'']),
                (''female'', [general ''ko-KR-SunHiNeural''])]),
      (''ar'', [(''male'', [general ''ar-SA-HamedNeural'']),
                (''female'', [general ''ar-SA-ZariyahNeural''])]),
      (''hi'', [(''male'', [general ''hi-IN-MadhurNeural'']),
                (''female'', [general ''hi-IN-SwaraNeural''])]),
      (''pl'', [(''male'', [general ''pl-PL-MarekNeural'']),
                (''female'', [general ''pl-PL-ZofiaNeural''])]),
      (''nl'', [(''male'', [general ''nl-NL-MaartenNeural'']),
                (''female'', [general ''nl-NL-ColetteNeural''])]),
      (''tr'', [(''male'', [general ''tr-TR-AhmetNeural'']),
                (''female'', [general ''tr-TR-EmelNeural''])]),
      (''sv'', [(''male'', [general ''sv-SE-MattiasNeural'']),
                (''female'', [general ''sv-SE-SofieNeural''])])]"

text \<open>
  The state of a \<^verbatim>\<open>VoiceAssigner\<close>: \<^verbatim>\<open>speaker_voice_map\<close> (cache key to voice) and
  \<^verbatim>\<open>used_voices\<close> (language code to the set of voices handed out).
\<close>

record assigner =
  speaker_voice_map :: "string \<rightharpoonup> string"
  used_voices :: "string \<rightharpoonup> string set"

definition new_assigner :: assigner where
  "new_assigner = \<lparr>speaker_voice_map = Map.empty, used_voices = Map.empty\<rparr>"

text \<open>The dictionary returned; the last three fields are present on some paths only.\<close>

record voice_choice =
  vc_voice :: string
  vc_cached :: bool
  vc_speaker_id :: string
  vc_fallback :: bool
  vc_gender :: "string option"
  vc_language :: "string option"

text \<open>\<^verbatim>\<open>f"{speaker_id}_{language}"\<close>.\<close>

definition cache_key :: "string \<Rightarrow> string \<Rightarrow> string" where
  "cache_key speaker_id language = speaker_id @ ''_'' @ language"

text \<open>Gender from the pitch estimate when it is \<^verbatim>\<open>"unknown"\<close>.\<close>

definition resolve_gender :: "string \<Rightarrow> real \<Rightarrow> string" where
  "resolve_gender gender pitch_estimate =
     (if gender = ''unknown'' then (if pitch_estimate > 180 then ''female'' else ''male'')
      else gender)"

text \<open>\<^verbatim>\<open>language[:2].lower()\<close>, replaced by \<^verbatim>\<open>"en"\<close> when the catalog has no such key.\<close>

definition lang_code_of :: "string \<Rightarrow> string" where
  "lang_code_of language =
     (let lang_code = lower (take 2 language) in
      if map_of EDGE_TTS_VOICES lang_code \<noteq> None then lang_code else ''en'')"

text \<open>
  The candidate list: the catalog's voices of the language code for the gender, or, when
  there are none, those of the other gender (\<^verbatim>\<open>"male"\<close> for every gender but \<^verbatim>\<open>"male"\<close>).
\<close>

definition candidate_voices :: "string \<Rightarrow> string \<Rightarrow> voice_entry list" where
  "candidate_voices lang_code gender =
     (let by_gender = (case map_of EDGE_TTS_VOICES lang_code of
                         Some d \<Rightarrow> d
                       | None \<Rightarrow> en_voices);
          voices = (case map_of by_gender gender of Some vs \<Rightarrow> vs | None \<Rightarrow> [])
      in if voices = [] then
           (case map_of by_gender (if gender = ''male'' then ''female'' else ''male'') of
              Some vs \<Rightarrow> vs
            | None \<Rightarrow> [])
         else voices)"

definition used_in :: "assigner \<Rightarrow> string \<Rightarrow> string set" where
  "used_in a lang_code = (case used_voices a lang_code of None \<Rightarrow> {} | Some s \<Rightarrow> s)"

text \<open>The first loop: the first voice not yet used whose style suits.\<close>

definition unused_suitable :: "string set \<Rightarrow> string \<Rightarrow> voice_entry \<Rightarrow> bool" where
  "unused_suitable used style voice =
     (v_name voice \<notin> used \<and> (style = ''general'' \<or> v_style voice = style))"

text \<open>Both loops: an unused suitable voice, else the first of the style, else the first.\<close>

definition select_voice :: "string set \<Rightarrow> string \<Rightarrow> voice_entry list \<Rightarrow> string" where
  "select_voice used style voices =
     (case find (unused_suitable used style) voices of
        Some voice \<Rightarrow> v_name voice
      | None \<Rightarrow>
          (case find (\<lambda>voice. v_style voice = style) voices of
             Some voice \<Rightarrow> v_name voice
           | None \<Rightarrow> v_name (hd voices)))"

definition get_voice_for_speaker ::
  "assigner \<Rightarrow> string \<Rightarrow> string \<Rightarrow> string \<Rightarrow> real \<Rightarrow> string \<Rightarrow> voice_choice \<times> assigner" where
  "get_voice_for_speaker a speaker_id language gender pitch_estimate style =
     (case speaker_voice_map a (cache_key speaker_id language) of
        Some cached_voice \<Rightarrow>
          (\<lparr>vc_voice = cached_voice, vc_cached = True, vc_speaker_id = speaker_id,
            vc_fallback = False, vc_gender = None, vc_language = None\<rparr>, a)
      | None \<Rightarrow>
          (let gender = resolve_gender gender pitch_estimate;
               lang_code = lang_code_of language;
               voices = candidate_voices lang_code gender
           in if voices = [] then
                (\<lparr>vc_voice = ''en-US-JennyNeural'', vc_cached = False,
                  vc_speaker_id = speaker_id, vc_fallback = True, vc_gender = None,
                  vc_language = None\<rparr>, a)
              else
                (let selected_voice = select_voice (used_in a lang_code) style voices
                 in (\<lparr>vc_voice = selected_voice, vc_cached = False,
                       vc_speaker_id = speaker_id, vc_fallback = False,
                       vc_gender = Some gender, vc_language = Some lang_code\<rparr>,
                     a\<lparr>speaker_voice_map :=
                         (speaker_voice_map a)(cache_key speaker_id language \<mapsto> selected_voice),
                       used_voices :=
                         (used_voices a)(lang_code \<mapsto> insert selected_voice (used_in a lang_code))\<rparr>))))"

text \<open>A job's requests, one after the other, on the same assigner.\<close>

record voice_request =
  vr_speaker_id :: string
  vr_language :: string
  vr_gender :: string
  vr_pitch_estimate :: real
  vr_style :: string

definition serve :: "assigner \<Rightarrow> voice_request \<Rightarrow> voice_choice \<times> assigner" where
  "serve a q =
     get_voice_for_speaker a (vr_speaker_id q) (vr_language q) (vr_gender q)
       (vr_pitch_estimate q) (vr_style q)"

fun serve_all :: "assigner \<Rightarrow> voice_request list \<Rightarrow> assigner" where
  "serve_all a [] = a"
| "serve_all a (q # qs) = serve_all (snd (serve a q)) qs"

text \<open>
  Whether the first loop of a request would find a voice: the candidate list still holds
  a voice that is not used in the language code and suits the style.
\<close>

definition has_unused_voice :: "assigner \<Rightarrow> voice_request \<Rightarrow> bool" where
  "has_unused_voice a q =
     list_ex (unused_suitable (used_in a (lang_code_of (vr_language q))) (vr_style q))
       (candidate_voices (lang_code_of (vr_language q))
          (resolve_gender (vr_gender q) (vr_pitch_estimate q)))"


subsection \<open>Stability and freshness of the assignment\<close>

lemma catalog_entry:
  "map_of EDGE_TTS_VOICES c = Some d \<Longrightarrow>
     \<exists>m f. d = [(''male'', m), (''female'', f)] \<and> m \<noteq> [] \<and> f \<noteq> []"
  by (auto simp: EDGE_TTS_VOICES_def en_voices_def split: if_splits)

lemma catalog_en: "map_of EDGE_TTS_VOICES ''en'' = Some en_voices"
  by (simp add: EDGE_TTS_VOICES_def)

lemma lang_code_in_catalog: "\<exists>d. map_of EDGE_TTS_VOICES (lang_code_of language) = Some d"
  by (auto simp: lang_code_of_def Let_def catalog_en)

lemma candidate_voices_nonempty: "candidate_voices (lang_code_of language) gender \<noteq> []"
proof -
  obtain d where d: "map_of EDGE_TTS_VOICES (lang_code_of language) = Some d"
    using lang_code_in_catalog by blast
  from catalog_entry [OF d] obtain m f where
    "d = [(''male'', m), (''female'', f)]" "m \<noteq> []" "f \<noteq> []" by blast
  with d show ?thesis
    by (simp add: candidate_voices_def Let_def)
qed

lemma serve_records:
  "speaker_voice_map (snd (serve a q)) (cache_key (vr_speaker_id q) (vr_language q)) =
     Some (vc_voice (fst (serve a q)))"
  by (simp add: serve_def get_voice_for_speaker_def Let_def candidate_voices_nonempty
        split: option.splits)

lemma serve_keeps:
  "speaker_voice_map a k = Some v \<Longrightarrow> speaker_voice_map (snd (serve a q)) k = Some v"
  by (auto simp: serve_def get_voice_for_speaker_def Let_def split: option.splits)

lemma serve_all_keeps:
  "speaker_voice_map a k = Some v \<Longrightarrow> speaker_voice_map (serve_all a qs) k = Some v"
  by (induction qs arbitrary: a) (simp_all add: serve_keeps)

lemma serve_cached:
  "speaker_voice_map a (cache_key (vr_speaker_id q) (vr_language q)) = Some v \<Longrightarrow>
     vc_voice (fst (serve a q)) = v"
  by (simp add: serve_def get_voice_for_speaker_def)

lemma serve_used_mono: "used_in a c \<subseteq> used_in (snd (serve a q)) c"
  by (auto simp: serve_def get_voice_for_speaker_def Let_def used_in_def split: option.splits)

lemma serve_all_used_mono: "used_in a c \<subseteq> used_in (serve_all a qs) c"
proof (induction qs arbitrary: a)
  case Nil
  then show ?case by simp
next
  case (Cons q qs)
  from serve_used_mono [of a c q] Cons.IH [of "snd (serve a q)"] show ?case by auto
qed

lemma serve_marks_used:
  "\<not> vc_cached (fst (serve a q)) \<Longrightarrow>
     vc_voice (fst (serve a q)) \<in> used_in (snd (serve a q)) (lang_code_of (vr_language q))"
  by (auto simp: serve_def get_voice_for_speaker_def Let_def used_in_def
        candidate_voices_nonempty split: option.splits)

lemma find_unused_suitable:
  "list_ex (unused_suitable used style) voices \<Longrightarrow> select_voice used style voices \<notin> used"
proof -
  assume "list_ex (unused_suitable used style) voices"
  then obtain voice where "find (unused_suitable used style) voices = Some voice"
    by (cases "find (unused_suitable used style) voices") (auto simp: find_None_iff list_ex_iff)
  moreover from this have "unused_suitable used style voice"
    by (auto simp: find_Some_iff)
  ultimately show ?thesis
    by (simp add: select_voice_def unused_suitable_def)
qed

lemma serve_fresh:
  "\<not> vc_cached (fst (serve a q)) \<Longrightarrow> has_unused_voice a q \<Longrightarrow>
     vc_voice (fst (serve a q)) \<notin> used_in a (lang_code_of (vr_language q))"
  by (auto simp: serve_def get_voice_for_speaker_def Let_def has_unused_voice_def
        candidate_voices_nonempty find_unused_suitable split: option.splits)

text \<open>Example requests: two male speakers in Japanese, whose catalog has one male voice.\<close>

definition request_for :: "string \<Rightarrow> string \<Rightarrow> string \<Rightarrow> voice_request" where
  "request_for speaker_id language gender =
     \<lparr>vr_speaker_id = speaker_id, vr_language = language, vr_gender = gender,
      vr_pitch_estimate = 200, vr_style = ''general''\<rparr>"

lemmas assigner_eval =
  serve_def get_voice_for_speaker_def cache_key_def resolve_gender_def lang_code_of_def
  candidate_voices_def used_in_def select_voice_def unused_suitable_def new_assigner_def
  request_for_def has_unused_voice_def general_def expressive_def lower_def lower_char_def

text \<open>
  C8 (as stated) fails in its uniqueness half: once every catalog voice of the gender is
  used, the first voice is handed out again. Two distinct male speakers in Japanese both
  get \<^verbatim>\<open>ja-JP-KeitaNeural\<close>.
\<close>

theorem voice_not_unique_counterexample:
  "vc_voice (fst (serve (snd (serve new_assigner (request_for ''speaker_0'' ''ja'' ''male'')))
                    (request_for ''speaker_1'' ''ja'' ''male'')))
     = vc_voice (fst (serve new_assigner (request_for ''speaker_0'' ''ja'' ''male''))) \<and>
   \<not> vc_cached (fst (serve (snd (serve new_assigner (request_for ''speaker_0'' ''ja'' ''male'')))
                        (request_for ''speaker_1'' ''ja'' ''male''))) \<and>
   ''speaker_0'' \<noteq> ''speaker_1''"
  by (simp add: assigner_eval EDGE_TTS_VOICES_def Let_def)

text \<open>
  C8 (amended). Stable: once a (speaker, language) pair has been requested, every later
  request for the same pair returns the same voice, whatever gender, pitch and style it
  passes and whatever requests came in between. Fresh while voices last: a request that
  is not served from the cache, made while the candidate list of its language code still
  holds an unused voice of a suitable style, gets a voice different from the voice of
  every earlier request of the same language code that was not served from the cache.
  (When no unused voice is left, a used voice is handed out again.)
\<close>

theorem voice_stable_and_fresh:
  "(vr_speaker_id q' = vr_speaker_id q \<and> vr_language q' = vr_language q \<longrightarrow>
      vc_voice (fst (serve (serve_all (snd (serve a q)) mid) q')) = vc_voice (fst (serve a q))) \<and>
   (\<not> vc_cached (fst (serve a q)) \<and>
    \<not> vc_cached (fst (serve (serve_all (snd (serve a q)) mid) q')) \<and>
    lang_code_of (vr_language q') = lang_code_of (vr_language q) \<and>
    has_unused_voice (serve_all (snd (serve a q)) mid) q' \<longrightarrow>
      vc_voice (fst (serve (serve_all (snd (serve a q)) mid) q')) \<noteq> vc_voice (fst (serve a q)))"
proof (intro conjI impI)
  assume same: "vr_speaker_id q' = vr_speaker_id q \<and> vr_language q' = vr_language q"
  have "speaker_voice_map (serve_all (snd (serve a q)) mid)
          (cache_key (vr_speaker_id q) (vr_language q)) = Some (vc_voice (fst (serve a q)))"
    by (rule serve_all_keeps [OF serve_records])
  with same show
    "vc_voice (fst (serve (serve_all (snd (serve a q)) mid) q')) = vc_voice (fst (serve a q))"
    by (intro serve_cached) simp
next
  assume h: "\<not> vc_cached (fst (serve a q)) \<and>
    \<not> vc_cached (fst (serve (serve_all (snd (serve a q)) mid) q')) \<and>
    lang_code_of (vr_language q') = lang_code_of (vr_language q) \<and>
    has_unused_voice (serve_all (snd (serve a q)) mid) q'"
  define c where "c = lang_code_of (vr_language q)"
  have "vc_voice (fst (serve a q)) \<in> used_in (snd (serve a q)) c"
    unfolding c_def using h by (intro serve_marks_used) simp
  with serve_all_used_mono [of "snd (serve a q)" c mid]
  have used: "vc_voice (fst (serve a q)) \<in> used_in (serve_all (snd (serve a q)) mid) c"
    by auto
  have "vc_voice (fst (serve (serve_all (snd (serve a q)) mid) q'))
          \<notin> used_in (serve_all (snd (serve a q)) mid) (lang_code_of (vr_language q'))"
    using h by (intro serve_fresh) simp_all
  with used h show
    "vc_voice (fst (serve (serve_all (snd (serve a q)) mid) q')) \<noteq> vc_voice (fst (serve a q))"
    unfolding c_def by auto
qed

theorem voice_stable_and_fresh_witness:
  "vc_voice (fst (serve (serve_all (snd (serve new_assigner (request_for ''speaker_0'' ''fr'' ''male'')))
                           [request_for ''speaker_1'' ''fr'' ''female''])
                    (request_for ''speaker_0'' ''fr'' ''unknown'')))
     = ''fr-FR-HenriNeural'' \<and>
   vc_voice (fst (serve (serve_all (snd (serve new_assigner (request_for ''speaker_0'' ''fr'' ''male'')))
                           [request_for ''speaker_1'' ''fr'' ''female''])
                    (request_for ''speaker_2'' ''fr-CA'' ''male'')))
     \<noteq> ''fr-FR-HenriNeural''"
proof -
  let ?q = "request_for ''speaker_0'' ''fr'' ''male''"
  let ?mid = "[request_for ''speaker_1'' ''fr'' ''female'']"
  let ?a2 = "serve_all (snd (serve new_assigner ?q)) ?mid"
  have first: "vc_voice (fst (serve new_assigner ?q)) = ''fr-FR-HenriNeural''"
    "\<not> vc_cached (fst (serve new_assigner ?q))"
    by (simp_all add: assigner_eval EDGE_TTS_VOICES_def Let_def)
  have same: "vr_speaker_id (request_for ''speaker_0'' ''fr'' ''unknown'') = vr_speaker_id ?q"
    "vr_language (request_for ''speaker_0'' ''fr'' ''unknown'') = vr_language ?q"
    by (simp_all add: request_for_def)
  have other: "\<not> vc_cached (fst (serve ?a2 (request_for ''speaker_2'' ''fr-CA'' ''male'')))"
    "lang_code_of (vr_language (request_for ''speaker_2'' ''fr-CA'' ''male''))
       = lang_code_of (vr_language ?q)"
    "has_unused_voice ?a2 (request_for ''speaker_2'' ''fr-CA'' ''male'')"
    by (simp_all add: assigner_eval EDGE_TTS_VOICES_def Let_def)
  from voice_stable_and_fresh [of "request_for ''speaker_0'' ''fr'' ''unknown''" ?q new_assigner ?mid]
       voice_stable_and_fresh [of "request_for ''speaker_2'' ''fr-CA'' ''male''" ?q new_assigner ?mid]
       first same other
  show ?thesis by simp
qed


section \<open>Segment translation (\<^verbatim>\<open>server/tts/translate.py\<close>)\<close>

subsection \<open>Parsing the numbered output\<close>

text \<open>
  \<^verbatim>\<open>\[\d+\]\<close> at the start of a string: the rest after the closing bracket. The digits
  are followed by \<^verbatim>\<open>]\<close>, so the greedy \<^verbatim>\<open>\d+\<close> takes all of them.
\<close>

definition starts_numbered :: "string \<Rightarrow> string option" where
  "starts_numbered s =
     (case s of
        [] \<Rightarrow> None
      | c # s1 \<Rightarrow>
          if c = CHR ''['' \<and> takeWhile is_digit s1 \<noteq> [] then
            (case dropWhile is_digit s1 of
               [] \<Rightarrow> None
             | d # s3 \<Rightarrow> if d = CHR '']'' then Some s3 else None)
          else None)"

text \<open>
  The lookahead \<^verbatim>\<open>(?=\[\d+\]|$)\<close> on the rest of the text: another number follows, or the
  text ends (\<^verbatim>\<open>$\<close> also holds just before a final newline).
\<close>

definition lookahead :: "string \<Rightarrow> bool" where
  "lookahead r = (starts_numbered r \<noteq> None \<or> r = [] \<or> r = [CHR 0x0A])"

text \<open>
  The lazy group \<^verbatim>\<open>(.+?)\<close> under \<^verbatim>\<open>re.DOTALL\<close>, followed by the lookahead: the shortest
  non-empty prefix after which the lookahead holds, and the rest.
\<close>

fun lazy_group :: "string \<Rightarrow> string \<times> string" where
  "lazy_group [] = ([], [])"
| "lazy_group (c # cs) =
     (if lookahead cs then ([c], cs)
      else (let (g, r) = lazy_group cs in (c # g, r)))"

text \<open>
  A match of \<^verbatim>\<open>\[(\d+)\]\s*(.+?)(?=\[\d+\]|$)\<close> at the start of \<open>s\<close>: group 2 and the rest
  after the match. The greedy \<^verbatim>\<open>\s*\<close> takes all white space; only when nothing is left
  for the group does it give its last character back.
\<close>

definition match_at :: "string \<Rightarrow> (string \<times> string) option" where
  "match_at s =
     (case starts_numbered s of
        None \<Rightarrow> None
      | Some s3 \<Rightarrow>
          (let s4 = dropWhile is_space s3 in
           if s4 \<noteq> [] then Some (lazy_group s4)
           else if s3 \<noteq> [] then Some ([last s3], [])
           else None))"

lemma starts_numbered_shorter: "starts_numbered s = Some r \<Longrightarrow> length r < length s"
proof -
  assume a: "starts_numbered s = Some r"
  then obtain c s1 where s: "s = c # s1" by (cases s) (auto simp: starts_numbered_def)
  with a have "dropWhile is_digit s1 = CHR '']'' # r"
    by (auto simp: starts_numbered_def split: if_splits list.splits)
  then have "length r < length (dropWhile is_digit s1)" by simp
  also have "\<dots> \<le> length s1" by (rule length_dropWhile_le)
  finally show ?thesis using s by simp
qed

lemma lazy_group_shorter: "lazy_group s = (g, r) \<Longrightarrow> length r \<le> length s"
proof (induction s arbitrary: g r)
  case Nil
  then show ?case by simp
next
  case (Cons c cs)
  then show ?case
    by (cases "lazy_group cs") (auto split: if_splits)
qed

lemma match_at_shorter: "match_at s = Some (g, r) \<Longrightarrow> length r < length s"
proof -
  assume a: "match_at s = Some (g, r)"
  then obtain s3 where s3: "starts_numbered s = Some s3"
    by (cases "starts_numbered s") (auto simp: match_at_def)
  have l3: "length s3 < length s" by (rule starts_numbered_shorter [OF s3])
  show ?thesis
  proof (cases "dropWhile is_space s3 = []")
    case True
    with a s3 have "r = []" by (auto simp: match_at_def Let_def split: if_splits)
    with l3 show ?thesis by auto
  next
    case False
    with a s3 have "lazy_group (dropWhile is_space s3) = (g, r)"
      by (auto simp: match_at_def Let_def)
    from lazy_group_shorter [OF this] have "length r \<le> length (dropWhile is_space s3)" .
    also have "\<dots> \<le> length s3" by (rule length_dropWhile_le)
    finally show ?thesis using l3 by simp
  qed
qed

text \<open>
  \<^verbatim>\<open>re.findall\<close> with that pattern, keeping group 2 of every match (the code reads
  \<^verbatim>\<open>match[1]\<close> only): scan from the left, resume after each match.
\<close>

function findall_numbered :: "string \<Rightarrow> string list" where
  "findall_numbered s =
     (case match_at s of
        Some (g, r) \<Rightarrow> g # findall_numbered r
      | None \<Rightarrow> (case s of [] \<Rightarrow> [] | c # cs \<Rightarrow> findall_numbered cs))"
  by pat_completeness auto
termination
  by (relation "measure length") (auto dest: match_at_shorter)

declare findall_numbered.simps [simp del]

text \<open>\<^verbatim>\<open>s.split('\n')\<close>.\<close>

fun split_lines :: "string \<Rightarrow> string list" where
  "split_lines [] = [[]]"
| "split_lines (c # cs) =
     (if c = CHR 0x0A then [] # split_lines cs
      else (case split_lines cs of
              [] \<Rightarrow> [[c]]
            | w # ws \<Rightarrow> (c # w) # ws))"

text \<open>\<^verbatim>\<open>re.sub(r'^\[\d+\]\s*', '', s)\<close>.\<close>

definition strip_numeric_prefix :: "string \<Rightarrow> string" where
  "strip_numeric_prefix s =
     (case starts_numbered s of None \<Rightarrow> s | Some r \<Rightarrow> dropWhile is_space r)"

text \<open>The two parses of the (stripped) reply.\<close>

definition numbered_items :: "string \<Rightarrow> string list" where
  "numbered_items result_text = map strip (findall_numbered result_text)"

definition non_blank_lines :: "string \<Rightarrow> string list" where
  "non_blank_lines result_text = filter (\<lambda>s. s \<noteq> []) (map strip (split_lines result_text))"

definition line_fallback :: "string \<Rightarrow> string list" where
  "line_fallback result_text = map strip_numeric_prefix (non_blank_lines result_text)"

text \<open>
  From the reply's content to \<^verbatim>\<open>translated_segments\<close>, for \<open>n\<close> input segments.
\<close>

definition parse_translations :: "nat \<Rightarrow> string \<Rightarrow> string list" where
  "parse_translations n content =
     (let result_text = strip content;
          translated_segments = numbered_items result_text
      in if length translated_segments \<noteq> n then line_fallback result_text
         else translated_segments)"

subsection \<open>One batch: \<^verbatim>\<open>translate_segments\<close>\<close>

text \<open>
  The outcome of one request to the translation service: the content of the reply, an
  HTTP error, a network error, or any other exception (a malformed reply among them).
\<close>

datatype http_outcome =
  Reply string
| HTTPError nat string
| URLError string
| OtherError string

record translate_env =
  api_key_configured :: bool
  request :: "nat \<Rightarrow> http_outcome"

text \<open>
  \<^verbatim>\<open>last_error or "Translation failed after retries"\<close>: \<^verbatim>\<open>None\<close> and the empty string
  both give the default message.
\<close>

definition error_or_default :: "string option \<Rightarrow> string" where
  "error_or_default last_error =
     (case last_error of
        None \<Rightarrow> ''Translation failed after retries''
      | Some e \<Rightarrow> if e = [] then ''Translation failed after retries'' else e)"

text \<open>
  The retry loop, \<^verbatim>\<open>for attempt in range(max_retries)\<close>; the sleeps are not modelled.
  \<open>Inl\<close> holds the error message of the failure dictionary. A rate limit (429), a server
  error (500 and above) and a network error go on to the next attempt; every other error
  leaves the loop.
\<close>

fun translate_attempts ::
  "(nat \<Rightarrow> http_outcome) \<Rightarrow> nat \<Rightarrow> nat \<Rightarrow> nat \<Rightarrow> string option \<Rightarrow> string + string list"
  where
  "translate_attempts req n attempt 0 last_error = Inl (error_or_default last_error)"
| "translate_attempts req n attempt (Suc remaining) last_error =
     (case req attempt of
        Reply content \<Rightarrow> Inr (parse_translations n content)
      | HTTPError code reason \<Rightarrow>
          (let last_error = ''HTTP '' @ show_nat code @ '': '' @ reason in
           if code = 429 \<or> code \<ge> 500
           then translate_attempts req n (attempt + 1) remaining (Some last_error)
           else Inl (error_or_default (Some last_error)))
      | URLError reason \<Rightarrow>
          translate_attempts req n (attempt + 1) remaining (Some (''Network error: '' @ reason))
      | OtherError e \<Rightarrow> Inl (error_or_default (Some e)))"

definition translate_segments ::
  "translate_env \<Rightarrow> string list \<Rightarrow> string \<Rightarrow> string \<Rightarrow> string \<Rightarrow> nat \<Rightarrow> string + string list"
  where
  "translate_segments env segments source_lang target_lang ctx max_retries =
     (if \<not> api_key_configured env then Inl ''OpenAI API key not found''
      else translate_attempts (request env) (length segments) 0 max_retries None)"


subsection \<open>The numbered request and well-formed replies\<close>

























subsection \<open>All batches: \<^verbatim>\<open>translate_timed_segments\<close>\<close>

record timed_segment =
  ts_text :: string
  ts_start :: real
  ts_end :: real
  ts_speaker_id :: "nat option"
  ts_gender :: "string option"

record translated_segment =
  tr_text :: string
  tr_start :: real
  tr_end :: real
  tr_original_text :: string
  tr_speaker_id :: "nat option"
  tr_gender :: "string option"

text \<open>
  The failure dictionaries: no text to translate, or a fatal failure with its message and
  \<^verbatim>\<open>partial_count\<close>.
\<close>

datatype timed_failure = NoTextSegments | TranslationFatal string nat

text \<open>\<^verbatim>\<open>texts[batch_start:batch_start + BATCH_SIZE]\<close> for \<^verbatim>\<open>batch_start\<close> in steps of the size.\<close>

function chunks :: "nat \<Rightarrow> 'a list \<Rightarrow> 'a list list" where
  "chunks n xs = (if n = 0 \<or> xs = [] then [] else take n xs # chunks n (drop n xs))"
  by pat_completeness auto
termination
  by (relation "measure (\<lambda>(n, xs). length xs)") auto

declare chunks.simps [simp del]

text \<open>
  The outside as seen by the loop: the translation service during the first call for
  batch number \<open>k\<close> (\<open>retry = False\<close>) and during its one repetition (\<open>retry = True\<close>).
\<close>

type_synonym batch_envs = "nat \<Rightarrow> bool \<Rightarrow> translate_env"

text \<open>
  The loop over the batches; \<open>batch_num\<close> counts from 1. The state is \<^verbatim>\<open>failed_batches\<close> and
  \<^verbatim>\<open>all_translated\<close>. The sleeps are not modelled.
\<close>

fun translate_batches ::
  "batch_envs \<Rightarrow> string \<Rightarrow> string \<Rightarrow> string \<Rightarrow> nat \<Rightarrow> string list list \<Rightarrow> nat \<Rightarrow>
     string list \<Rightarrow> timed_failure + string list" where
  "translate_batches envs source_lang target_lang ctx batch_num [] failed_batches all_translated =
     Inr all_translated"
| "translate_batches envs source_lang target_lang ctx batch_num (batch_texts # rest)
     failed_batches all_translated =
     (case translate_segments (envs batch_num False) batch_texts source_lang target_lang ctx 3 of
        Inr translations \<Rightarrow>
          translate_batches envs source_lang target_lang ctx (batch_num + 1) rest
            failed_batches (all_translated @ translations)
      | Inl error_msg \<Rightarrow>
          (let failed_batches = failed_batches + 1 in
           if failed_batches \<ge> 3 then
             Inl (TranslationFatal
                    (''Translation failed after '' @ show_nat failed_batches @
                     '' batch failures. Last error: '' @ error_msg)
                    (length all_translated))
           else
             (case translate_segments (envs batch_num True) batch_texts source_lang
                     target_lang ctx 3 of
                Inr translations \<Rightarrow>
                  translate_batches envs source_lang target_lang ctx (batch_num + 1) rest
                    failed_batches (all_translated @ translations)
              | Inl retry_error \<Rightarrow>
                  Inl (TranslationFatal
                         (''Batch '' @ show_nat batch_num @ '' failed after retry: '' @
                          retry_error)
                         (length all_translated)))))"

text \<open>
  The last loop: every segment with text takes the next translation, as long as there is
  one.
\<close>

fun attach_translations :: "timed_segment list \<Rightarrow> string list \<Rightarrow> translated_segment list" where
  "attach_translations [] all_translated = []"
| "attach_translations (seg # segs) all_translated =
     (if strip (ts_text seg) \<noteq> [] then
        (case all_translated of
           [] \<Rightarrow> attach_translations segs []
         | t # later \<Rightarrow>
             \<lparr>tr_text = t, tr_start = ts_start seg, tr_end = ts_end seg,
              tr_original_text = ts_text seg, tr_speaker_id = ts_speaker_id seg,
              tr_gender = ts_gender seg\<rparr> # attach_translations segs later)
      else attach_translations segs all_translated)"

definition texts_of :: "timed_segment list \<Rightarrow> string list" where
  "texts_of segments = map ts_text (filter (\<lambda>seg. strip (ts_text seg) \<noteq> []) segments)"

definition translate_timed_segments ::
  "batch_envs \<Rightarrow> timed_segment list \<Rightarrow> string \<Rightarrow> string \<Rightarrow> string \<Rightarrow>
     timed_failure + translated_segment list" where
  "translate_timed_segments envs segments source_lang target_lang ctx =
     (let texts = texts_of segments in
      if texts = [] then Inl NoTextSegments
      else
        (case translate_batches envs source_lang target_lang ctx 1 (chunks 20 texts) 0 [] of
           Inl failure \<Rightarrow> Inl failure
         | Inr all_translated \<Rightarrow> Inr (attach_translations segments all_translated)))"

subsection \<open>When the translation is fatal\<close>

text \<open>
  The first call for a numbered batch, its repetition, and the translations the batch
  contributes when it is not fatal.
\<close>

definition first_call ::
  "batch_envs \<Rightarrow> string \<Rightarrow> string \<Rightarrow> string \<Rightarrow> nat \<times> string list \<Rightarrow> string + string list" where
  "first_call envs source_lang target_lang ctx =
     (\<lambda>(k, batch). translate_segments (envs k False) batch source_lang target_lang ctx 3)"

definition second_call ::
  "batch_envs \<Rightarrow> string \<Rightarrow> string \<Rightarrow> string \<Rightarrow> nat \<times> string list \<Rightarrow> string + string list" where
  "second_call envs source_lang target_lang ctx =
     (\<lambda>(k, batch). translate_segments (envs k True) batch source_lang target_lang ctx 3)"

definition contributed ::
  "batch_envs \<Rightarrow> string \<Rightarrow> string \<Rightarrow> string \<Rightarrow> nat \<times> string list \<Rightarrow> string list" where
  "contributed envs source_lang target_lang ctx kb =
     (case first_call envs source_lang target_lang ctx kb of
        Inr translations \<Rightarrow> translations
      | Inl e \<Rightarrow>
          (case second_call envs source_lang target_lang ctx kb of
             Inr translations \<Rightarrow> translations
           | Inl e' \<Rightarrow> []))"

text \<open>
  Batch \<open>i\<close> of the numbered batches \<open>kbs\<close> is fatal, \<open>failed_before\<close> first calls having
  failed before the first of \<open>kbs\<close>: its first call fails, and either its repetition fails
  too or it is at least the third batch whose first call failed.
\<close>

definition fatal_batch ::
  "batch_envs \<Rightarrow> string \<Rightarrow> string \<Rightarrow> string \<Rightarrow> nat \<Rightarrow> (nat \<times> string list) list \<Rightarrow> nat \<Rightarrow> bool"
  where
  "fatal_batch envs source_lang target_lang ctx failed_before kbs i =
     (isl (first_call envs source_lang target_lang ctx (kbs ! i)) \<and>
      (isl (second_call envs source_lang target_lang ctx (kbs ! i)) \<or>
       3 \<le> failed_before +
             length (filter (\<lambda>kb. isl (first_call envs source_lang target_lang ctx kb))
                       (take (Suc i) kbs))))"

definition partial_count_of :: "timed_failure + 'a \<Rightarrow> nat option" where
  "partial_count_of res =
     (case res of
        Inl (TranslationFatal e n) \<Rightarrow> Some n
      | Inl NoTextSegments \<Rightarrow> None
      | Inr ok \<Rightarrow> None)"


lemma find_map_Suc: "find P (map Suc xs) = map_option Suc (find (\<lambda>i. P (Suc i)) xs)"
  by (induction xs) simp_all

lemma upt_Suc_shift: "[0..<Suc n] = 0 # map Suc [0..<n]"
  by (simp add: upt_conv_Cons map_Suc_upt del: upt_Suc)

lemma fatal_batch_Suc:
  "fatal_batch envs src tgt ctx failed (kb # kbs) (Suc i) =
     fatal_batch envs src tgt ctx
       (failed + (if isl (first_call envs src tgt ctx kb) then 1 else 0)) kbs i"
  by (simp add: fatal_batch_def)

lemma fatal_batch_0:
  "fatal_batch envs src tgt ctx failed (kb # kbs) 0 =
     (isl (first_call envs src tgt ctx kb) \<and>
      (isl (second_call envs src tgt ctx kb) \<or> 3 \<le> failed + 1))"
  by (auto simp: fatal_batch_def)

lemma translate_batches_fatal:
  "partial_count_of (translate_batches envs src tgt ctx bn batches failed all_translated) =
     (case find (fatal_batch envs src tgt ctx failed (enumerate bn batches)) [0..<length batches] of
        None \<Rightarrow> None
      | Some i \<Rightarrow>
          Some (length all_translated +
                length (concat (map (contributed envs src tgt ctx) (take i (enumerate bn batches))))))"
proof (induction batches arbitrary: bn failed all_translated)
  case Nil
  then show ?case by (simp add: partial_count_of_def)
next
  case (Cons batch rest)
  let ?kb = "(bn, batch)"
  let ?first = "first_call envs src tgt ctx ?kb"
  let ?second = "second_call envs src tgt ctx ?kb"
  have first_eq: "translate_segments (envs bn False) batch src tgt ctx 3 = ?first"
    by (simp add: first_call_def)
  have second_eq: "translate_segments (envs bn True) batch src tgt ctx 3 = ?second"
    by (simp add: second_call_def)
  have range: "[0..<length (batch # rest)] = 0 # map Suc [0..<length rest]"
    using upt_Suc_shift [of "length rest"] by simp
  have kbs: "enumerate bn (batch # rest) = ?kb # enumerate (Suc bn) rest"
    by simp
  show ?case
  proof (cases ?first)
    case (Inr trs)
    have not_fatal: "\<not> fatal_batch envs src tgt ctx failed (?kb # enumerate (Suc bn) rest) 0"
      by (simp add: fatal_batch_0 Inr)
    have contrib: "contributed envs src tgt ctx ?kb = trs"
      by (simp add: contributed_def Inr)
    have step: "translate_batches envs src tgt ctx bn (batch # rest) failed all_translated =
                  translate_batches envs src tgt ctx (Suc bn) rest failed
                    (all_translated @ trs)"
      by (simp add: first_eq Inr)
    show ?thesis
      unfolding step range kbs
      using not_fatal Cons.IH [of "Suc bn" failed "all_translated @ trs"]
      by (simp add: find_map_Suc fatal_batch_Suc Inr contrib split: option.splits)
  next
    case (Inl error_msg)
    show ?thesis
    proof (cases "3 \<le> failed + 1 \<or> isl ?second")
      case True
      have fatal: "fatal_batch envs src tgt ctx failed (?kb # enumerate (Suc bn) rest) 0"
        using True by (auto simp: fatal_batch_0 Inl)
      have "\<exists>e. translate_batches envs src tgt ctx bn (batch # rest) failed all_translated =
                   Inl (TranslationFatal e (length all_translated))"
        using True by (auto simp: first_eq second_eq Inl Let_def isl_def)
      then have "partial_count_of
                   (translate_batches envs src tgt ctx bn (batch # rest) failed all_translated) =
                   Some (length all_translated)"
        by (auto simp: partial_count_of_def)
      then show ?thesis
        unfolding range kbs using fatal by simp
    next
      case False
      then obtain trs where second: "?second = Inr trs"
        by (cases ?second) auto
      have not_fatal: "\<not> fatal_batch envs src tgt ctx failed (?kb # enumerate (Suc bn) rest) 0"
        using False by (simp add: fatal_batch_0)
      have contrib: "contributed envs src tgt ctx ?kb = trs"
        by (simp add: contributed_def Inl second)
      have step: "translate_batches envs src tgt ctx bn (batch # rest) failed all_translated =
                    translate_batches envs src tgt ctx (Suc bn) rest (failed + 1)
                      (all_translated @ trs)"
        using False by (simp add: first_eq second_eq Inl second Let_def)
      show ?thesis
        unfolding step range kbs
        using not_fatal Cons.IH [of "Suc bn" "failed + 1" "all_translated @ trs"]
        by (simp add: find_map_Suc fatal_batch_Suc Inl contrib split: option.splits)
    qed
  qed
qed

text \<open>
  Example environments: a service that answers every request with the client error 400
  (which is not retried), and one that does so only for the first call of the batches 1,
  3 and 4 and otherwise replies with one line.
\<close>

definition refusing :: translate_env where
  "refusing = \<lparr>api_key_configured = True, request = (\<lambda>k. HTTPError 400 ''Bad Request'')\<rparr>"

definition replying :: translate_env where
  "replying = \<lparr>api_key_configured = True, request = (\<lambda>k. Reply ''ok'')\<rparr>"

definition flaky :: batch_envs where
  "flaky k retry = (if (k = 1 \<or> k = 3 \<or> k = 4) \<and> \<not> retry then refusing else replying)"

definition hello_segment :: timed_segment where
  "hello_segment =
     \<lparr>ts_text = ''Hello'', ts_start = 0, ts_end = 2, ts_speaker_id = None, ts_gender = None\<rparr>"

lemma refusing_fails:
  "translate_segments refusing batch src tgt ctx 3 = Inl ''HTTP 400: Bad Request''"
  by (simp add: translate_segments_def refusing_def numeral_3_eq_3 Let_def show_nat.simps
        digit_char_def error_or_default_def)

lemma ok_parses: "numbered_items (strip ''ok'') = []" "line_fallback (strip ''ok'') = [''ok'']"
  by code_simp+

lemma replying_succeeds:
  "batch \<noteq> [] \<Longrightarrow> translate_segments replying batch src tgt ctx 3 = Inr [''ok'']"
  by (simp add: translate_segments_def replying_def numeral_3_eq_3 parse_translations_def
        ok_parses Let_def)

lemma hello_texts: "texts_of (replicate n hello_segment) = replicate n ''Hello''"
proof -
  have "strip ''Hello'' \<noteq> []" by code_simp
  then show ?thesis by (simp add: texts_of_def hello_segment_def)
qed

lemma chunks_61:
  "chunks 20 (replicate 61 x) = [replicate 20 x, replicate 20 x, replicate 20 x, [x]]"
proof -
  have step: "\<And>n. chunks 20 (replicate (Suc n) x) =
                 replicate (min 20 (Suc n)) x # chunks 20 (replicate (Suc n - 20) x)"
    by (subst chunks.simps) (simp add: min.commute)
  have stop: "chunks 20 ([] :: 'a list) = []"
    by (subst chunks.simps) simp
  have "chunks 20 (replicate 61 x) = replicate 20 x # chunks 20 (replicate 41 x)"
    using step [of 60] by simp
  also have "chunks 20 (replicate 41 x) = replicate 20 x # chunks 20 (replicate 21 x)"
    using step [of 40] by simp
  also have "chunks 20 (replicate 21 x) = replicate 20 x # chunks 20 (replicate 1 x)"
    using step [of 20] by simp
  also have "chunks 20 (replicate 1 x) = [[x]]"
    using step [of 0] stop by simp
  finally show ?thesis .
qed

text \<open>
  C3 (as stated) fails in both directions. A job of one batch whose first call and whose
  repetition fail is fatal after a single failed batch. A job of four batches in which
  the first calls of the batches 1, 3 and 4 fail, the repetitions of the batches 1 and 3
  succeed and batch 2 succeeds at once, is fatal at batch 4: the counter is not reset by
  the successes in between, and nowhere did three failures follow one another. In both
  cases \<^verbatim>\<open>partial_count\<close> is the number of translations accumulated (0 and 3).
\<close>

theorem fatal_without_three_consecutive_counterexample:
  "translate_timed_segments (\<lambda>k retry. refusing) [hello_segment] ''en'' ''es'' ''movie'' =
     Inl (TranslationFatal ''Batch 1 failed after retry: HTTP 400: Bad Request'' 0) \<and>
   translate_timed_segments flaky (replicate 61 hello_segment) ''en'' ''es'' ''movie'' =
     Inl (TranslationFatal
            ''Translation failed after 3 batch failures. Last error: HTTP 400: Bad Request'' 3)"
proof -
  have one: "chunks 20 [''Hello''] = [[''Hello'']]"
    by (subst chunks.simps, subst chunks.simps) simp
  have t1: "texts_of [hello_segment] = [''Hello'']"
    using hello_texts [of 1] by simp
  have a: "translate_timed_segments (\<lambda>k retry. refusing) [hello_segment] ''en'' ''es'' ''movie'' =
     Inl (TranslationFatal ''Batch 1 failed after retry: HTTP 400: Bad Request'' 0)"
    by (simp add: translate_timed_segments_def t1 one refusing_fails Let_def show_nat.simps
          digit_char_def)
  have fl: "flaky (Suc 0) False = refusing" "flaky (Suc 0) True = replying"
    "flaky (Suc (Suc 0)) False = replying"
    "flaky (Suc (Suc (Suc 0))) False = refusing" "flaky (Suc (Suc (Suc 0))) True = replying"
    "flaky (Suc (Suc (Suc (Suc 0)))) False = refusing"
    by (simp_all add: flaky_def)
  have b: "translate_timed_segments flaky (replicate 61 hello_segment) ''en'' ''es'' ''movie'' =
     Inl (TranslationFatal
            ''Translation failed after 3 batch failures. Last error: HTTP 400: Bad Request'' 3)"
    by (simp add: translate_timed_segments_def hello_texts chunks_61 fl refusing_fails
          replying_succeeds Let_def show_nat.simps digit_char_def)
  from a b show ?thesis ..
qed

text \<open>
  C3 (amended). Timed-segment translation fails fatally exactly when some batch is fatal:
  the first call for the batch fails, and either its one repetition fails as well or the
  batch is at least the third of the job whose first call failed (the failures are counted
  over the whole job; a success does not reset the count). On that failure
  \<^verbatim>\<open>partial_count\<close> is the number of translations accumulated from the batches before the
  first fatal one.
\<close>

theorem translation_fatal_iff:
  "partial_count_of (translate_timed_segments envs segments src tgt ctx) =
     (case find (fatal_batch envs src tgt ctx 0 (enumerate 1 (chunks 20 (texts_of segments))))
             [0..<length (chunks 20 (texts_of segments))] of
        None \<Rightarrow> None
      | Some i \<Rightarrow>
          Some (length (concat (map (contributed envs src tgt ctx)
                                  (take i (enumerate 1 (chunks 20 (texts_of segments))))))))"
proof (cases "texts_of segments = []")
  case True
  then show ?thesis
    by (simp add: translate_timed_segments_def partial_count_of_def chunks.simps [of 20 "[]"])
next
  case False
  have "partial_count_of (translate_timed_segments envs segments src tgt ctx) =
          partial_count_of
            (translate_batches envs src tgt ctx 1 (chunks 20 (texts_of segments)) 0 [])"
    using False
    by (simp add: translate_timed_segments_def partial_count_of_def Let_def split: sum.splits)
  also have "\<dots> =
     (case find (fatal_batch envs src tgt ctx 0 (enumerate 1 (chunks 20 (texts_of segments))))
             [0..<length (chunks 20 (texts_of segments))] of
        None \<Rightarrow> None
      | Some i \<Rightarrow>
          Some (length ([] :: string list) +
                length (concat (map (contributed envs src tgt ctx)
                                  (take i (enumerate 1 (chunks 20 (texts_of segments))))))))"
    by (rule translate_batches_fatal)
  finally show ?thesis
    by (simp cong: option.case_cong)
qed


section \<open>Timeline assembly (\<^verbatim>\<open>server/tts/segment_assembler.py\<close>)\<close>

record tts_segment =
  a_audio_path :: string
  a_start :: real
  a_end :: real

text \<open>
  What was done to a clip to produce its adjusted file: \<^verbatim>\<open>pyrb.time_stretch\<close> with a
  stretch ratio, the clip re-encoded without stretching (the clamped ratio is within 0.02
  of 1), or the \<^verbatim>\<open>atempo\<close> filter with a speed factor.
\<close>

datatype stretch = TimeStretch real | Unstretched | Atempo real

text \<open>An entry of \<^verbatim>\<open>segment_files\<close>, by what the file holds.\<close>

datatype piece = Silence real | Original string | Adjusted string stretch

text \<open>The temporary file a silence is written to.\<close>

datatype silence_file = GapFile nat | MissingFile nat | FinalFile

text \<open>The outcome of the work inside the \<^verbatim>\<open>try\<close> of the rubberband path.\<close>

datatype rb_outcome = RbRaised | RbDone bool

text \<open>
  The outside: the flag \<^verbatim>\<open>HAS_RUBBERBAND\<close>; \<^verbatim>\<open>os.path.exists\<close>; \<^verbatim>\<open>get_audio_duration\<close> (0
  when the probe fails); the duration \<^verbatim>\<open>len(audio) / sr\<close> read by soundfile (\<open>None\<close> when
  reading raises); the rest of the rubberband path for a clip and a stretch (raised, or
  whether the conversion's return code was 0); whether the \<^verbatim>\<open>atempo\<close> run, a silence
  generation and the final concatenation returned 0; the duration probed for the output.
\<close>

record assembler_env =
  has_rubberband :: bool
  path_exists :: "string \<Rightarrow> bool"
  probe_duration :: "string \<Rightarrow> real"
  sf_read_duration :: "string \<Rightarrow> real option"
  rubberband_run :: "string \<Rightarrow> stretch \<Rightarrow> rb_outcome"
  atempo_run :: "string \<Rightarrow> real \<Rightarrow> bool"
  silence_run :: "silence_file \<Rightarrow> real \<Rightarrow> bool"
  concat_run :: "piece list \<Rightarrow> bool"
  output_duration :: "piece list \<Rightarrow> real"

text \<open>
  The adjusting functions return \<^verbatim>\<open>True\<close> or \<^verbatim>\<open>False\<close>; here \<open>Some op\<close> stands for \<^verbatim>\<open>True\<close>
  and tells what the adjusted file holds, \<open>None\<close> stands for \<^verbatim>\<open>False\<close>.
\<close>

definition adjust_segment_speed_ffmpeg :: "assembler_env \<Rightarrow> string \<Rightarrow> real \<Rightarrow> stretch option"
  where
  "adjust_segment_speed_ffmpeg env input_path target_duration =
     (let current_duration = probe_duration env input_path in
      if current_duration \<le> 0 \<or> target_duration \<le> 0 then None
      else
        (let speed_factor = current_duration / target_duration;
             speed_factor = max 0.5 (min 2.0 speed_factor)
         in if atempo_run env input_path speed_factor then Some (Atempo speed_factor)
            else None))"

text \<open>
  What the rubberband path does to a clip of a given duration: the stretch ratio, its
  clamping to the safe limits, and the stretch itself only if the ratio is more than 0.02
  away from 1.
\<close>

definition rubberband_op :: "real \<Rightarrow> real \<Rightarrow> stretch" where
  "rubberband_op current_duration target_duration =
     (let stretch_ratio = target_duration / current_duration;
          stretch_ratio = max 0.7 (min 1.5 stretch_ratio)
      in if \<bar>stretch_ratio - 1.0\<bar> > 0.02 then TimeStretch stretch_ratio else Unstretched)"

definition adjust_segment_speed_rubberband ::
  "assembler_env \<Rightarrow> string \<Rightarrow> real \<Rightarrow> stretch option" where
  "adjust_segment_speed_rubberband env input_path target_duration =
     (if \<not> has_rubberband env then adjust_segment_speed_ffmpeg env input_path target_duration
      else
        (case sf_read_duration env input_path of
           None \<Rightarrow> adjust_segment_speed_ffmpeg env input_path target_duration
         | Some current_duration \<Rightarrow>
             if current_duration \<le> 0 \<or> target_duration \<le> 0 then None
             else
               (let op = rubberband_op current_duration target_duration
                in case rubberband_run env input_path op of
                     RbRaised \<Rightarrow> adjust_segment_speed_ffmpeg env input_path target_duration
                   | RbDone ok \<Rightarrow> if ok then Some op else None)))"

definition adjust_segment_speed :: "assembler_env \<Rightarrow> string \<Rightarrow> real \<Rightarrow> stretch option" where
  "adjust_segment_speed env input_path target_duration =
     (if has_rubberband env then adjust_segment_speed_rubberband env input_path target_duration
      else adjust_segment_speed_ffmpeg env input_path target_duration)"

text \<open>\<^verbatim>\<open>if generate_silence(..): segment_files.append(..)\<close>.\<close>

definition append_silence ::
  "assembler_env \<Rightarrow> silence_file \<Rightarrow> real \<Rightarrow> piece list \<Rightarrow> piece list" where
  "append_silence env file duration segment_files =
     (if silence_run env file duration then segment_files @ [Silence duration]
      else segment_files)"

text \<open>The file appended for a segment whose clip exists.\<close>

definition clip_piece :: "assembler_env \<Rightarrow> tts_segment \<Rightarrow> piece" where
  "clip_piece env seg =
     (let audio_path = a_audio_path seg;
          target_duration = a_end seg - a_start seg;
          actual_duration = probe_duration env audio_path
      in if \<bar>actual_duration - target_duration\<bar> > 0.3 then
           (case adjust_segment_speed env audio_path target_duration of
              Some op \<Rightarrow> Adjusted audio_path op
            | None \<Rightarrow> Original audio_path)
         else Original audio_path)"

text \<open>
  The loop over \<^verbatim>\<open>enumerate(tts_segments)\<close>; the state is \<^verbatim>\<open>segment_files\<close> and
  \<^verbatim>\<open>current_time\<close>.
\<close>

fun assemble_loop ::
  "assembler_env \<Rightarrow> nat \<Rightarrow> tts_segment list \<Rightarrow> piece list \<times> real \<Rightarrow> piece list \<times> real" where
  "assemble_loop env i [] state = state"
| "assemble_loop env i (seg # segs) (segment_files, current_time) =
     (let start_time = a_start seg;
          end_time = a_end seg;
          audio_path = a_audio_path seg;
          target_duration = end_time - start_time;
          (segment_files, current_time) =
            (if start_time > current_time then
               (append_silence env (GapFile i) (start_time - current_time) segment_files,
                start_time)
             else (segment_files, current_time));
          (segment_files, current_time) =
            (if path_exists env audio_path then
               (segment_files @ [clip_piece env seg], end_time)
             else
               (append_silence env (MissingFile i) target_duration segment_files, end_time))
      in assemble_loop env (i + 1) segs (segment_files, current_time))"

text \<open>The dictionary returned on success; \<open>asm_pieces\<close> is what the output file holds.\<close>

record assembly =
  asm_pieces :: "piece list"
  asm_segments_processed :: nat
  asm_target_duration :: real
  asm_actual_duration :: real
  asm_duration_error :: real

text \<open>The list of files handed to the concatenation, or the error returned before it.\<close>

definition assembly_files :: "assembler_env \<Rightarrow> tts_segment list \<Rightarrow> real \<Rightarrow> string + piece list"
  where
  "assembly_files env tts_segments total_duration =
     (if tts_segments = [] then Inl ''No segments provided''
      else
        (let tts_segments = sort_key a_start tts_segments;
             (segment_files, current_time) = assemble_loop env 0 tts_segments ([], 0);
             segment_files =
               (if current_time < total_duration then
                  append_silence env FinalFile (total_duration - current_time) segment_files
                else segment_files)
         in if segment_files = [] then Inl ''No segments to concatenate''
            else Inr segment_files))"

definition assemble_segments_with_timing ::
  "assembler_env \<Rightarrow> tts_segment list \<Rightarrow> real \<Rightarrow> string + assembly" where
  "assemble_segments_with_timing env tts_segments total_duration =
     (case assembly_files env tts_segments total_duration of
        Inl e \<Rightarrow> Inl e
      | Inr segment_files \<Rightarrow>
          if \<not> concat_run env segment_files then Inl ''Concatenation failed''
          else
            (let final_duration = output_duration env segment_files
             in Inr \<lparr>asm_pieces = segment_files,
                     asm_segments_processed = length tts_segments,
                     asm_target_duration = total_duration,
                     asm_actual_duration = final_duration,
                     asm_duration_error = \<bar>final_duration - total_duration\<bar>\<rparr>))"

subsection \<open>The timeline\<close>

text \<open>
  The timeline as the specification words it, with the cursor \<open>t\<close>: before a segment that
  starts after the cursor a silence of \<open>start - t\<close>; then the segment's clip, or, when its
  file is missing, a silence of \<open>end - start\<close>; the cursor moves to the segment's end; after
  the last segment a silence of \<open>total_duration - t\<close> if the cursor is short of the total.
  A silence that cannot be generated is left out.
\<close>

definition silence_if :: "assembler_env \<Rightarrow> silence_file \<Rightarrow> real \<Rightarrow> piece list" where
  "silence_if env file duration = (if silence_run env file duration then [Silence duration] else [])"

fun spec_timeline ::
  "assembler_env \<Rightarrow> real \<Rightarrow> nat \<Rightarrow> real \<Rightarrow> tts_segment list \<Rightarrow> piece list" where
  "spec_timeline env total_duration i t [] =
     (if t < total_duration then silence_if env FinalFile (total_duration - t) else [])"
| "spec_timeline env total_duration i t (s # segs) =
     (if a_start s > t then silence_if env (GapFile i) (a_start s - t) else []) @
     (if path_exists env (a_audio_path s) then [clip_piece env s]
      else silence_if env (MissingFile i) (a_end s - a_start s)) @
     spec_timeline env total_duration (i + 1) (a_end s) segs"


lemma append_silence_silence_if:
  "append_silence env file duration segment_files = segment_files @ silence_if env file duration"
  by (simp add: append_silence_def silence_if_def)

lemma assemble_loop_timeline:
  "assemble_loop env i segs (segment_files, t) = (files', t') \<Longrightarrow>
     files' @ (if t' < total_duration then silence_if env FinalFile (total_duration - t') else [])
       = segment_files @ spec_timeline env total_duration i t segs"
proof (induction segs arbitrary: i segment_files t)
  case Nil
  then show ?case by simp
next
  case (Cons seg segs)
  define gap where
    "gap = (if a_start seg > t then silence_if env (GapFile i) (a_start seg - t) else [])"
  define clip where
    "clip = (if path_exists env (a_audio_path seg) then [clip_piece env seg]
             else silence_if env (MissingFile i) (a_end seg - a_start seg))"
  have step: "assemble_loop env i (seg # segs) (segment_files, t) =
                assemble_loop env (i + 1) segs (segment_files @ gap @ clip, a_end seg)"
    unfolding gap_def clip_def
    by (simp add: Let_def append_silence_silence_if)
  from Cons.prems step
  have "assemble_loop env (i + 1) segs (segment_files @ gap @ clip, a_end seg) = (files', t')"
    by simp
  from Cons.IH [OF this] show ?case
    unfolding gap_def clip_def by simp
qed

lemma assemble_loop_cursor:
  "snd (assemble_loop env i [seg] (segment_files, t)) = a_end seg"
  by (simp add: Let_def)

text \<open>Example inputs: every tool succeeds and every clip lasts 2 s.\<close>

definition studio :: assembler_env where
  "studio =
     \<lparr>has_rubberband = True, path_exists = (\<lambda>p. True), probe_duration = (\<lambda>p. 2),
      sf_read_duration = (\<lambda>p. Some 2), rubberband_run = (\<lambda>p s. RbDone True),
      atempo_run = (\<lambda>p f. True), silence_run = (\<lambda>f d. True), concat_run = (\<lambda>ps. True),
      output_duration = (\<lambda>ps. 10)\<rparr>"

definition world_clip :: tts_segment where
  "world_clip = \<lparr>a_audio_path = ''segment_0001.mp3'', a_start = 5, a_end = 7\<rparr>"

text \<open>
  C1 (as stated) fails in two ways. For an empty segment list the function returns the
  error \<^verbatim>\<open>No segments provided\<close>: the cursor is 0, the total duration is 10, and no
  trailing silence is appended. And every silence is appended only if its generation
  succeeds: when it fails, a segment that starts at 5 s is preceded by nothing and no
  trailing silence follows its end at 7 s.
\<close>

theorem assembly_silence_counterexample:
  "assembly_files studio [] 10 = Inl ''No segments provided'' \<and>
   assembly_files (studio\<lparr>silence_run := (\<lambda>f d. False)\<rparr>) [world_clip] 10
     = Inr [Original ''segment_0001.mp3'']"
  by (simp add: assembly_files_def studio_def world_clip_def append_silence_def clip_piece_def
        Let_def)

text \<open>
  C1 (amended). For a non-empty segment list, the files handed to the concatenation are
  the timeline of the segments sorted by start, with the cursor starting at 0: before
  every segment whose start exceeds the cursor a silence of \<open>start - t\<close>, for every segment
  whose file does not exist a silence of \<open>end - start\<close> in its place, after the last
  segment a silence of \<open>total_duration - t\<close> if the cursor is short of the total, each
  silence being appended only if it could be generated; and in every case the cursor
  advances to the segment's end.
\<close>

theorem assembly_follows_timeline:
  assumes "tts_segments \<noteq> []"
  shows "assembly_files env tts_segments total_duration =
           (if spec_timeline env total_duration 0 0 (sort_key a_start tts_segments) = []
            then Inl ''No segments to concatenate''
            else Inr (spec_timeline env total_duration 0 0 (sort_key a_start tts_segments))) \<and>
         snd (assemble_loop env i [seg] (segment_files, t)) = a_end seg"
proof -
  obtain files' t' where
    loop: "assemble_loop env 0 (sort_key a_start tts_segments) ([], 0) = (files', t')"
    by (cases "assemble_loop env 0 (sort_key a_start tts_segments) ([], 0)")
  from assemble_loop_timeline [OF loop, of total_duration]
  have "files' @ (if t' < total_duration
                  then silence_if env FinalFile (total_duration - t') else []) =
          spec_timeline env total_duration 0 0 (sort_key a_start tts_segments)"
    by simp
  then have "(if t' < total_duration
              then append_silence env FinalFile (total_duration - t') files' else files') =
          spec_timeline env total_duration 0 0 (sort_key a_start tts_segments)"
    by (simp add: append_silence_silence_if split: if_splits)
  with assms loop show ?thesis
    by (simp add: assembly_files_def Let_def assemble_loop_cursor del: assemble_loop.simps)
qed

theorem assembly_follows_timeline_witness:
  "[world_clip] \<noteq> [] \<and>
   assembly_files studio [world_clip] 10 =
     Inr [Silence 5, Original ''segment_0001.mp3'', Silence 3] \<and>
   snd (assemble_loop studio 0 [world_clip] ([], 0)) = 7"
proof -
  have ne: "[world_clip] \<noteq> []" by simp
  have tl: "spec_timeline studio 10 0 0 (sort_key a_start [world_clip]) =
              [Silence 5, Original ''segment_0001.mp3'', Silence 3]"
    by (simp add: studio_def world_clip_def silence_if_def clip_piece_def Let_def)
  have e: "a_end world_clip = 7" by (simp add: world_clip_def)
  have "assembly_files studio [world_clip] 10 =
          Inr [Silence 5, Original ''segment_0001.mp3'', Silence 3] \<and>
        snd (assemble_loop studio 0 [world_clip] ([], 0)) = a_end world_clip"
    using assembly_follows_timeline [OF ne, of studio 10 0 world_clip "[]" 0]
    unfolding tl by simp
  then show ?thesis unfolding e using ne by blast
qed

subsection \<open>Stretching a clip\<close>










end
